theory Spec2Isabelle
  imports Complex_Main
begin

section \<open>Floating-point values\<close>

text \<open>
  The analysis code computes with numpy \<open>float64\<close> values. A value is modelled as a
  real number or one of the three IEEE special values. Arithmetic on finite values is
  exact: rounding, overflow to infinity and the sign of zero are not modelled. Division
  follows numpy, where a zero divisor gives an infinity or NaN and never an exception.
\<close>

datatype pyfloat = Fin real | PInf | NInf | NaN

datatype py_exception = KeyError | ValueError | IndexError | OverflowError | TypeError

definition py_bind :: "py_exception + 'a \<Rightarrow> ('a \<Rightarrow> py_exception + 'b) \<Rightarrow> py_exception + 'b" where
  "py_bind r f = (case r of Inl e \<Rightarrow> Inl e | Inr v \<Rightarrow> f v)"

fun is_finite :: "pyfloat \<Rightarrow> bool" where
  "is_finite (Fin x) = True"
| "is_finite _ = False"

fun pf_sgn :: "pyfloat \<Rightarrow> int" where
  "pf_sgn (Fin x) = (if x < 0 then -1 else if x = 0 then 0 else 1)"
| "pf_sgn PInf = 1"
| "pf_sgn NInf = -1"
| "pf_sgn NaN = 0"

fun pf_neg :: "pyfloat \<Rightarrow> pyfloat" where
  "pf_neg (Fin x) = Fin (- x)"
| "pf_neg PInf = NInf"
| "pf_neg NInf = PInf"
| "pf_neg NaN = NaN"

fun pf_abs :: "pyfloat \<Rightarrow> pyfloat" where
  "pf_abs (Fin x) = Fin \<bar>x\<bar>"
| "pf_abs PInf = PInf"
| "pf_abs NInf = PInf"
| "pf_abs NaN = NaN"

fun pf_add :: "pyfloat \<Rightarrow> pyfloat \<Rightarrow> pyfloat" where
  "pf_add NaN b = NaN"
| "pf_add a NaN = NaN"
| "pf_add (Fin x) (Fin y) = Fin (x + y)"
| "pf_add PInf NInf = NaN"
| "pf_add NInf PInf = NaN"
| "pf_add PInf b = PInf"
| "pf_add NInf b = NInf"
| "pf_add a PInf = PInf"
| "pf_add a NInf = NInf"

definition pf_sub :: "pyfloat \<Rightarrow> pyfloat \<Rightarrow> pyfloat" where
  "pf_sub a b = pf_add a (pf_neg b)"

fun pf_mul :: "pyfloat \<Rightarrow> pyfloat \<Rightarrow> pyfloat" where
  "pf_mul NaN b = NaN"
| "pf_mul a NaN = NaN"
| "pf_mul (Fin x) (Fin y) = Fin (x * y)"
| "pf_mul a b =
     (let s = pf_sgn a * pf_sgn b in if s = 0 then NaN else if 0 < s then PInf else NInf)"

fun pf_div :: "pyfloat \<Rightarrow> pyfloat \<Rightarrow> pyfloat" where
  "pf_div NaN b = NaN"
| "pf_div a NaN = NaN"
| "pf_div (Fin x) (Fin y) =
     (if y = 0 then (if x = 0 then NaN else if 0 < x then PInf else NInf) else Fin (x / y))"
| "pf_div (Fin x) b = Fin 0"
| "pf_div a (Fin y) = (if pf_sgn a * (if y < 0 then -1 else 1) = 1 then PInf else NInf)"
| "pf_div a b = NaN"

fun pf_sqrt :: "pyfloat \<Rightarrow> pyfloat" where
  "pf_sqrt (Fin x) = (if x < 0 then NaN else Fin (sqrt x))"
| "pf_sqrt PInf = PInf"
| "pf_sqrt NInf = NaN"
| "pf_sqrt NaN = NaN"

text \<open>Comparisons: every comparison with NaN is false.\<close>

fun pf_lt :: "pyfloat \<Rightarrow> pyfloat \<Rightarrow> bool" where
  "pf_lt NaN b = False"
| "pf_lt a NaN = False"
| "pf_lt (Fin x) (Fin y) = (x < y)"
| "pf_lt NInf NInf = False"
| "pf_lt NInf b = True"
| "pf_lt a NInf = False"
| "pf_lt PInf b = False"
| "pf_lt a PInf = True"

definition pf_gt :: "pyfloat \<Rightarrow> pyfloat \<Rightarrow> bool" where
  "pf_gt a b = pf_lt b a"

definition pf_le :: "pyfloat \<Rightarrow> pyfloat \<Rightarrow> bool" where
  "pf_le a b = (a \<noteq> NaN \<and> b \<noteq> NaN \<and> \<not> pf_lt b a)"

text \<open>
  Python's built-in \<open>min(a, b)\<close> returns \<open>a\<close> unless \<open>b < a\<close>, and \<open>max(a, b)\<close>
  returns \<open>a\<close> unless \<open>b > a\<close>; with a NaN second argument the first one is returned.
\<close>

definition py_min :: "pyfloat \<Rightarrow> pyfloat \<Rightarrow> pyfloat" where
  "py_min a b = (if pf_lt b a then b else a)"

definition py_max :: "pyfloat \<Rightarrow> pyfloat \<Rightarrow> pyfloat" where
  "py_max a b = (if pf_gt b a then b else a)"

section \<open>numpy and pandas reductions\<close>

fun np_sum :: "pyfloat list \<Rightarrow> pyfloat" where
  "np_sum [] = Fin 0"
| "np_sum (x # xs) = pf_add x (np_sum xs)"

text \<open>\<open>np.mean\<close> of an empty array is NaN (with a warning), as \<open>0 / 0\<close> is here.\<close>

definition np_mean :: "pyfloat list \<Rightarrow> pyfloat" where
  "np_mean xs = pf_div (np_sum xs) (Fin (real (length xs)))"

definition np_std :: "pyfloat list \<Rightarrow> pyfloat" where
  "np_std xs =
     (let m = np_mean xs
      in pf_sqrt (np_mean (map (\<lambda>x. pf_mul (pf_abs (pf_sub x m)) (pf_abs (pf_sub x m))) xs)))"

text \<open>\<open>np.maximum\<close> and \<open>np.minimum\<close> propagate NaN.\<close>

definition np_max2 :: "pyfloat \<Rightarrow> pyfloat \<Rightarrow> pyfloat" where
  "np_max2 a b = (if a = NaN \<or> b = NaN then NaN else if pf_lt a b then b else a)"

definition np_min2 :: "pyfloat \<Rightarrow> pyfloat \<Rightarrow> pyfloat" where
  "np_min2 a b = (if a = NaN \<or> b = NaN then NaN else if pf_lt b a then b else a)"

definition np_max :: "pyfloat list \<Rightarrow> py_exception + pyfloat" where
  "np_max xs = (case xs of [] \<Rightarrow> Inl ValueError | x # rest \<Rightarrow> Inr (foldl np_max2 x rest))"

definition np_min :: "pyfloat list \<Rightarrow> py_exception + pyfloat" where
  "np_min xs = (case xs of [] \<Rightarrow> Inl ValueError | x # rest \<Rightarrow> Inr (foldl np_min2 x rest))"

text \<open>
  \<open>np.argmax\<close>: the index of the first maximum, a NaN counting as the maximum; the
  arguments are the rest of the array, the index reached, and the best index and value.
\<close>

fun argmax_from :: "pyfloat list \<Rightarrow> nat \<Rightarrow> nat \<Rightarrow> pyfloat \<Rightarrow> nat" where
  "argmax_from [] i bi bv = bi"
| "argmax_from (x # xs) i bi bv =
     (if bv = NaN then bi
      else if x = NaN \<or> pf_gt x bv then argmax_from xs (Suc i) i x
      else argmax_from xs (Suc i) bi bv)"

definition np_argmax :: "pyfloat list \<Rightarrow> py_exception + nat" where
  "np_argmax xs = (case xs of [] \<Rightarrow> Inl ValueError | x # rest \<Rightarrow> Inr (argmax_from rest 1 0 x))"

fun np_diff :: "pyfloat list \<Rightarrow> pyfloat list" where
  "np_diff (x # y # xs) = pf_sub y x # np_diff (y # xs)"
| "np_diff xs = []"

text \<open>
  \<open>pd.Series(values).rolling(window=w, center=True, min_periods=1).mean()\<close>: the
  window of position \<open>i\<close> is \<open>[i + 1 + offset - w, i + 1 + offset)\<close> with
  \<open>offset = (w - 1) // 2\<close>, clipped to the series; pandas treats infinities as missing
  values, and a window with no observation gives NaN.
\<close>

definition rolling_mean :: "nat \<Rightarrow> pyfloat list \<Rightarrow> pyfloat list" where
  "rolling_mean w xs =
     map (\<lambda>i. let off = (w - 1) div 2;
                 e = min (length xs) (i + 1 + off);
                 s = (i + 1 + off) - w;
                 obs = filter is_finite (take (e - s) (drop s xs))
             in if obs = [] then NaN else np_mean obs)
         [0..<length xs]"

section \<open>Calendar dates\<close>

text \<open>
  A \<open>datetime\<close> at midnight is represented by its proleptic Gregorian ordinal
  (\<open>date.toordinal()\<close>: day 1 is 0001-01-01, day 3652059 is 9999-12-31). The
  functions below follow the standard library's \<open>_ymd2ord\<close> and \<open>_ord2ymd\<close>.
  Rendering a date with \<open>strftime\<close> is left out: events and predictions hold ordinals.
\<close>

type_synonym date = int

definition max_ordinal :: int where
  "max_ordinal = 3652059"

definition is_leap :: "int \<Rightarrow> bool" where
  "is_leap y = (y mod 4 = 0 \<and> (y mod 100 \<noteq> 0 \<or> y mod 400 = 0))"

definition days_before_year :: "int \<Rightarrow> int" where
  "days_before_year year = (let y = year - 1 in y * 365 + y div 4 - y div 100 + y div 400)"

definition days_in_month :: "int \<Rightarrow> int \<Rightarrow> int" where
  "days_in_month year month =
     (if month = 2 \<and> is_leap year then 29
      else [31, 28, 31, 30, 31, 30, 31, 31, 30, 31, 30, 31] ! nat (month - 1))"

definition days_before_month :: "int \<Rightarrow> int \<Rightarrow> int" where
  "days_before_month year month =
     [0, 31, 59, 90, 120, 151, 181, 212, 243, 273, 304, 334] ! nat (month - 1)
       + (if 2 < month \<and> is_leap year then 1 else 0)"

definition ymd2ord :: "int \<Rightarrow> int \<Rightarrow> int \<Rightarrow> date" where
  "ymd2ord year month day = days_before_year year + days_before_month year month + day"

text \<open>\<open>d.timetuple().tm_yday\<close>, the day of the year (1 to 366).\<close>

definition tm_yday :: "date \<Rightarrow> int" where
  "tm_yday d =
     (let n = d - 1;
          n100 = (n mod 146097) div 36524;
          r100 = (n mod 146097) mod 36524;
          n1 = (r100 mod 1461) div 365;
          r1 = (r100 mod 1461) mod 365
      in if n1 = 4 \<or> n100 = 4 then 366 else r1 + 1)"

text \<open>\<open>d + timedelta(days=k)\<close> raises OverflowError outside the range of \<open>datetime\<close>.\<close>

definition date_add :: "date \<Rightarrow> int \<Rightarrow> py_exception + date" where
  "date_add d k = (if 1 \<le> d + k \<and> d + k \<le> max_ordinal then Inr (d + k) else Inl OverflowError)"

text \<open>
  \<open>datetime.strptime(s, '%Y-%m-%d')\<close>: a year of exactly four digits, a month written
  \<open>1\<close> to \<open>9\<close> or \<open>01\<close> to \<open>12\<close>, a day written \<open>1\<close> to \<open>9\<close>, \<open>01\<close> to \<open>31\<close> or
  with a leading space, nothing before or after; ValueError otherwise, and for a date
  that does not exist.
\<close>

fun split_fields :: "string \<Rightarrow> string list" where
  "split_fields [] = [[]]"
| "split_fields (c # cs) =
     (if c = CHR ''-'' then [] # split_fields cs
      else (case split_fields cs of [] \<Rightarrow> [[c]] | f # fs \<Rightarrow> (c # f) # fs))"

definition is_digit :: "char \<Rightarrow> bool" where
  "is_digit c = (48 \<le> (of_char c :: nat) \<and> (of_char c :: nat) \<le> 57)"

definition parse_digits :: "string \<Rightarrow> int option" where
  "parse_digits s =
     (if s \<noteq> [] \<and> list_all is_digit s
      then Some (foldl (\<lambda>a c. 10 * a + (int (of_char c) - 48)) 0 s) else None)"

definition year_token :: "string \<Rightarrow> int option" where
  "year_token s = (if length s = 4 then parse_digits s else None)"

definition month_token :: "string \<Rightarrow> int option" where
  "month_token s =
     (if length s \<le> 2
      then (case parse_digits s of Some m \<Rightarrow> if 1 \<le> m \<and> m \<le> 12 then Some m else None
            | None \<Rightarrow> None)
      else None)"

definition day_token :: "string \<Rightarrow> int option" where
  "day_token s =
     (if length s \<le> 2
      then (case parse_digits (case s of [a, b] \<Rightarrow> if a = CHR '' '' \<and> b \<noteq> CHR ''0'' then [b] else s
                               | _ \<Rightarrow> s) of
              Some d \<Rightarrow> if 1 \<le> d \<and> d \<le> 31 then Some d else None
            | None \<Rightarrow> None)
      else None)"

definition strptime :: "string \<Rightarrow> py_exception + date" where
  "strptime s =
     (case split_fields s of
        [ys, ms, ds] \<Rightarrow>
          (case (year_token ys, month_token ms, day_token ds) of
             (Some y, Some m, Some d) \<Rightarrow>
               if 1 \<le> y \<and> d \<le> days_in_month y m then Inr (ymd2ord y m d) else Inl ValueError
           | _ \<Rightarrow> Inl ValueError)
      | _ \<Rightarrow> Inl ValueError)"

text \<open>The list comprehension \<open>[datetime.strptime(d, '%Y-%m-%d') for d in dates]\<close>.\<close>

fun parse_dates :: "string list \<Rightarrow> py_exception + date list" where
  "parse_dates [] = Inr []"
| "parse_dates (s # ss) =
     py_bind (strptime s) (\<lambda>d. py_bind (parse_dates ss) (\<lambda>ds. Inr (d # ds)))"

fun py_mapM :: "('a \<Rightarrow> py_exception + 'b) \<Rightarrow> 'a list \<Rightarrow> py_exception + 'b list" where
  "py_mapM f [] = Inr []"
| "py_mapM f (x # xs) = py_bind (f x) (\<lambda>y. py_bind (py_mapM f xs) (\<lambda>ys. Inr (y # ys)))"

section \<open>Input records and events\<close>

text \<open>
  The input is a dictionary \<open>{'time_series': {...}, 'location': {...}, ...}\<close>. A key
  that may be absent is an optional field. The fields of \<open>time_series\<close> after
  \<open>ts_quality_flags\<close> are the keys that the cleaning pipeline attaches.
\<close>

record location =
  latitude :: "pyfloat option"
  longitude :: "pyfloat option"

record time_series =
  ts_dates :: "string list option"
  ts_values :: "pyfloat list option"
  ts_quality_flags :: "string list option"
  ts_units :: "string option"
  ts_values_smoothed :: "pyfloat list option"
  ts_smoothing_applied :: "nat option"
  ts_evi_approximated :: "pyfloat list option"
  ts_savi_approximated :: "pyfloat list option"
  ts_greenness_index :: "pyfloat list option"

record satellite_data =
  d_time_series :: "time_series option"
  d_location :: "location option"
  d_product_info :: "(string \<times> string) list option"

record event =
  start_date :: date
  end_date :: date
  peak_date :: date
  duration_days :: int
  peak_value :: pyfloat
  intensity :: pyfloat
  confidence :: pyfloat

record enriched_event = event +
  ev_location :: location
  data_source :: "(string \<times> string) list"
  event_type :: string
  confidence_level :: string

section \<open>FloweringDetector\<close>

definition ndvi_flowering_threshold :: pyfloat where
  "ndvi_flowering_threshold = Fin (15 / 100)"

definition min_duration_days :: int where
  "min_duration_days = 5"

definition max_duration_days :: int where
  "max_duration_days = 45"

definition smoothing_window :: nat where
  "smoothing_window = 3"

definition anomaly_threshold_sigma :: pyfloat where
  "anomaly_threshold_sigma = Fin 2"

definition validate_data :: "satellite_data \<Rightarrow> bool" where
  "validate_data data =
     (case (d_time_series data, d_location data) of
        (Some ts, Some loc) \<Rightarrow>
          (case (ts_dates ts, ts_values ts) of
             (Some ds, Some vs) \<Rightarrow> length ds = length vs
           | _ \<Rightarrow> False)
      | _ \<Rightarrow> False)"

definition smooth_time_series :: "pyfloat list \<Rightarrow> pyfloat list" where
  "smooth_time_series vals =
     (if length vals < smoothing_window then vals else rolling_mean smoothing_window vals)"

text \<open>
  \<open>_calculate_confidence\<close>. \<open>values[event_indices]\<close> raises IndexError for an index
  out of range. The sum of the weighted factors starts from 0 and adds them in the order
  intensity, duration, consistency, contrast.
\<close>

definition calculate_confidence :: "nat list \<Rightarrow> pyfloat list \<Rightarrow> py_exception + pyfloat" where
  "calculate_confidence event_indices vals =
     (if event_indices = [] then Inr (Fin 0)
      else if \<exists>i\<in>set event_indices. length vals \<le> i then Inl IndexError
      else
        let event_values = map (\<lambda>i. vals ! i) event_indices
        in py_bind (np_max event_values) (\<lambda>mx.
             let f_intensity =
                   py_min (Fin 1) (pf_div (pf_sub mx (np_mean vals)) (np_std vals));
                 f_duration = py_min (Fin 1) (Fin (real (length event_indices) / 5));
                 f_consistency =
                   (if pf_gt (np_mean event_values) (Fin 0)
                    then pf_sub (Fin 1) (pf_div (np_std event_values) (np_mean event_values))
                    else Fin 0);
                 f_contrast =
                   py_min (Fin 1) (pf_sub (pf_div (np_mean event_values) (np_mean vals)) (Fin 1));
                 conf =
                   pf_add (pf_add (pf_add (pf_add (Fin 0)
                     (pf_mul f_intensity (Fin (4 / 10))))
                     (pf_mul f_duration (Fin (2 / 10))))
                     (pf_mul f_consistency (Fin (2 / 10))))
                     (pf_mul f_contrast (Fin (2 / 10)))
             in Inr (py_max (Fin 0) (py_min (Fin 1) conf))))"

text \<open>
  \<open>_group_consecutive_exceedances\<close>. The first loop collects the runs of indices whose
  mask entry is true: the arguments of \<open>group_loop\<close> are the rest of the mask, the index
  reached, \<open>current_group\<close> and \<open>groups\<close>.
\<close>

fun group_loop :: "bool list \<Rightarrow> nat \<Rightarrow> nat list \<Rightarrow> nat list list \<Rightarrow> nat list list \<times> nat list" where
  "group_loop [] i current_group groups = (groups, current_group)"
| "group_loop (exceeds # rest) i current_group groups =
     (if exceeds then group_loop rest (Suc i) (current_group @ [i]) groups
      else if current_group \<noteq> [] then group_loop rest (Suc i) [] (groups @ [current_group])
      else group_loop rest (Suc i) current_group groups)"

definition find_groups :: "bool list \<Rightarrow> nat list list" where
  "find_groups exceedances =
     (case group_loop exceedances 0 [] [] of
        (groups, current_group) \<Rightarrow>
          if current_group \<noteq> [] then groups @ [current_group] else groups)"

text \<open>The body of the second loop: the event of one group, if it passes the filters.\<close>

definition group_event :: "date list \<Rightarrow> pyfloat list \<Rightarrow> nat list \<Rightarrow> py_exception + event option" where
  "group_event dates vals grp =
     (if 2 \<le> length grp then
        let start_idx = hd grp; end_idx = last grp
        in if \<exists>i\<in>set grp. length vals \<le> i then Inl IndexError
           else py_bind (np_argmax (map (\<lambda>i. vals ! i) grp)) (\<lambda>k.
             let peak_idx = grp ! k
             in if \<exists>i\<in>set grp. length dates \<le> i then Inl IndexError
                else
                  let duration = dates ! end_idx - dates ! start_idx
                  in if min_duration_days \<le> duration \<and> duration \<le> max_duration_days then
                       py_bind (calculate_confidence grp vals) (\<lambda>c.
                         Inr (Some \<lparr>start_date = dates ! start_idx,
                                    end_date = dates ! end_idx,
                                    peak_date = dates ! peak_idx,
                                    duration_days = duration,
                                    peak_value = vals ! peak_idx,
                                    intensity = pf_sub (vals ! peak_idx) (np_mean vals),
                                    confidence = c\<rparr>))
                     else Inr None)
      else Inr None)"

text \<open>Appending the events of a loop in order; the first exception ends the loop.\<close>

fun collect_events :: "('a \<Rightarrow> py_exception + event option) \<Rightarrow> 'a list \<Rightarrow> py_exception + event list" where
  "collect_events f [] = Inr []"
| "collect_events f (x # xs) =
     py_bind (f x) (\<lambda>r. py_bind (collect_events f xs) (\<lambda>es.
       Inr (case r of None \<Rightarrow> es | Some e \<Rightarrow> e # es)))"

definition group_consecutive_exceedances ::
  "date list \<Rightarrow> pyfloat list \<Rightarrow> bool list \<Rightarrow> py_exception + event list" where
  "group_consecutive_exceedances dates vals exceedances =
     collect_events (group_event dates vals) (find_groups exceedances)"

text \<open>
  \<open>_track_flowering_event\<close>. \<open>find_peak\<close> is the loop that looks for the peak over
  \<open>range(start_idx + 1, min(len(values), start_idx + 10))\<close>, its state being
  \<open>(peak_idx, peak_value)\<close>; \<open>find_end\<close> is the loop that looks for the end over
  \<open>range(peak_idx + 1, min(len(values), peak_idx + 15))\<close>, its state being \<open>end_idx\<close>.
\<close>

fun find_peak :: "pyfloat list \<Rightarrow> nat list \<Rightarrow> nat \<times> pyfloat \<Rightarrow> nat \<times> pyfloat" where
  "find_peak vals [] (peak_idx, peak_val) = (peak_idx, peak_val)"
| "find_peak vals (i # rest) (peak_idx, peak_val) =
     (if pf_gt (vals ! i) peak_val then find_peak vals rest (i, vals ! i)
      else if pf_lt (vals ! i) (pf_mul peak_val (Fin (8 / 10))) then (peak_idx, peak_val)
      else find_peak vals rest (peak_idx, peak_val))"

fun find_end :: "pyfloat list \<Rightarrow> pyfloat \<Rightarrow> nat list \<Rightarrow> nat \<Rightarrow> nat" where
  "find_end vals peak_val [] end_idx = end_idx"
| "find_end vals peak_val (i # rest) end_idx =
     (if pf_lt (vals ! i) (pf_mul peak_val (Fin (7 / 10))) then i
      else find_end vals peak_val rest i)"

definition track_flowering_event :: "date list \<Rightarrow> pyfloat list \<Rightarrow> nat \<Rightarrow> py_exception + event option" where
  "track_flowering_event dates vals start_idx =
     (if length vals \<le> start_idx + 1 then Inr None
      else
        case find_peak vals [start_idx + 1 ..< min (length vals) (start_idx + 10)]
               (start_idx, vals ! start_idx) of
          (peak_idx, peak_val) \<Rightarrow>
            let end_idx =
                  find_end vals peak_val [peak_idx + 1 ..< min (length vals) (peak_idx + 15)] peak_idx
            in if length dates \<le> end_idx then Inl IndexError
               else
                 let duration = dates ! end_idx - dates ! start_idx
                 in if min_duration_days \<le> duration \<and> duration \<le> max_duration_days then
                      py_bind (calculate_confidence [start_idx ..< end_idx + 1] vals) (\<lambda>c.
                        Inr (Some \<lparr>start_date = dates ! start_idx,
                                   end_date = dates ! end_idx,
                                   peak_date = dates ! peak_idx,
                                   duration_days = duration,
                                   peak_value = peak_val,
                                   intensity = pf_sub peak_val (np_mean vals),
                                   confidence = c\<rparr>))
                    else Inr None)"

definition detect_by_threshold :: "date list \<Rightarrow> pyfloat list \<Rightarrow> py_exception + event list" where
  "detect_by_threshold dates vals =
     (let baseline_window = min (length vals div 3) 10;
          baseline =
            (if baseline_window < 2 then replicate (length vals) (np_mean vals)
             else rolling_mean baseline_window vals);
          exceedances =
            map (\<lambda>(v, b). pf_gt (pf_sub v b) ndvi_flowering_threshold) (zip vals baseline)
      in group_consecutive_exceedances dates vals exceedances)"

definition detect_by_change :: "date list \<Rightarrow> pyfloat list \<Rightarrow> py_exception + event list" where
  "detect_by_change dates vals =
     (if length vals < 5 then Inr []
      else
        let diff = np_diff vals;
            diff_smooth = smooth_time_series diff;
            threshold = pf_mul (np_std diff_smooth) (Fin (15 / 10));
            significant_increases = map (\<lambda>d. pf_gt d threshold) diff_smooth;
            event_starts =
              filter (\<lambda>i. significant_increases ! i \<and> (i = 0 \<or> \<not> significant_increases ! (i - 1)))
                [0..<length significant_increases]
        in collect_events (track_flowering_event dates vals) event_starts)"

text \<open>
  \<open>df.groupby('day_of_year')['value'].agg(['mean', 'std'])\<close>: pandas leaves NaN
  observations out; \<open>std\<close> is the sample standard deviation (\<open>ddof = 1\<close>), NaN for a
  group with fewer than two observations.
\<close>

definition pd_group_mean :: "pyfloat list \<Rightarrow> pyfloat" where
  "pd_group_mean grp = (let obs = filter (\<lambda>x. x \<noteq> NaN) grp in if obs = [] then NaN else np_mean obs)"

definition pd_group_std :: "pyfloat list \<Rightarrow> pyfloat" where
  "pd_group_std grp =
     (let obs = filter (\<lambda>x. x \<noteq> NaN) grp; m = np_mean obs
      in if length obs < 2 then NaN
         else pf_sqrt (pf_div (np_sum (map (\<lambda>x. pf_mul (pf_sub x m) (pf_sub x m)) obs))
                              (Fin (real (length obs - 1)))))"

text \<open>
  \<open>_detect_seasonal_anomaly\<close>. Building the DataFrame raises ValueError when the
  columns differ in length. Every row's day of the year is in the index of the grouped
  statistics.
\<close>

definition detect_seasonal_anomaly :: "date list \<Rightarrow> pyfloat list \<Rightarrow> py_exception + event list" where
  "detect_seasonal_anomaly dates vals =
     (if length vals < 10 then Inr []
      else if length dates \<noteq> length vals then Inl ValueError
      else
        let day_of_year = map tm_yday dates;
            anomalies =
              map (\<lambda>(day, v).
                     let grp = map snd (filter (\<lambda>(d, x). d = day) (zip day_of_year vals));
                         mean_val = pd_group_mean grp;
                         std_val = pd_group_std grp
                     in if pf_gt std_val (Fin 0) then pf_div (pf_sub v mean_val) std_val
                        else Fin 0)
                  (zip day_of_year vals);
            significant_anomalies = map (\<lambda>a. pf_gt a anomaly_threshold_sigma) anomalies
        in group_consecutive_exceedances dates vals significant_anomalies)"

text \<open>
  \<open>_detect_by_ml\<close>. The scaler and the k-means clustering belong to scikit-learn; they
  are a parameter \<open>kmeans\<close>, which takes the feature matrix and returns the cluster label
  of each row or raises. Everything from the scaling on is inside the \<open>try\<close> block,
  whose handler falls back to \<open>_detect_by_change\<close>.
\<close>

definition feature_vector :: "date list \<Rightarrow> pyfloat list \<Rightarrow> nat \<Rightarrow> py_exception + pyfloat list" where
  "feature_vector dates vals i =
     (let window_start = i - 2;
          window_end = min (length vals) (i + 3);
          window_vals = take (window_end - window_start) (drop window_start vals)
      in py_bind (np_max window_vals) (\<lambda>mx.
         py_bind (np_min window_vals) (\<lambda>mn.
           if length dates \<le> i then Inl IndexError
           else Inr [vals ! i, np_mean window_vals, np_std window_vals, pf_sub mx mn,
                     Fin (real_of_int (tm_yday (dates ! i)) / 365)])))"

text \<open>
  \<open>max(cluster_means, key=lambda x: x[1])\<close> keeps the first pair whose mean no later
  one exceeds.
\<close>

fun max_by_mean :: "nat \<times> pyfloat \<Rightarrow> (nat \<times> pyfloat) list \<Rightarrow> nat \<times> pyfloat" where
  "max_by_mean best [] = best"
| "max_by_mean best (c # cs) = (if pf_gt (snd c) (snd best) then max_by_mean c cs else max_by_mean best cs)"

definition ml_clustering ::
  "(pyfloat list list \<Rightarrow> py_exception + nat list) \<Rightarrow> date list \<Rightarrow> pyfloat list \<Rightarrow> pyfloat list list
     \<Rightarrow> py_exception + event list" where
  "ml_clustering kmeans dates vals features =
     py_bind (kmeans features) (\<lambda>clusters.
       if length clusters \<noteq> length vals then Inl IndexError
       else
         let cluster_means =
               concat (map (\<lambda>cluster_id.
                 let members = map snd (filter (\<lambda>(c, v). c = cluster_id) (zip clusters vals))
                 in if members \<noteq> [] then [(cluster_id, np_mean members)] else [])
                 [0, 1, 2])
         in (case cluster_means of
               [] \<Rightarrow> Inr []
             | c # cs \<Rightarrow>
                 let flowering_cluster = fst (max_by_mean c cs);
                     flowering_points = map (\<lambda>c. c = flowering_cluster) clusters
                 in group_consecutive_exceedances dates vals flowering_points))"

definition detect_by_ml ::
  "(pyfloat list list \<Rightarrow> py_exception + nat list) \<Rightarrow> date list \<Rightarrow> pyfloat list \<Rightarrow> py_exception + event list" where
  "detect_by_ml kmeans dates vals =
     (if length vals < 10 then Inr []
      else py_bind (py_mapM (feature_vector dates vals) [0..<length vals]) (\<lambda>features.
             case ml_clustering kmeans dates vals features of
               Inl e \<Rightarrow> detect_by_change dates vals
             | Inr events \<Rightarrow> Inr events))"

definition classify_event_type :: "event \<Rightarrow> string" where
  "classify_event_type ev =
     (if duration_days ev < 10
      then (if pf_gt (intensity ev) (Fin (1 / 10)) then ''brief_flowering'' else ''vegetation_pulse'')
      else if duration_days ev < 25 then ''typical_flowering''
      else ''extended_flowering'')"

text \<open>
  \<open>_enrich_event\<close>. The description is a formatted text and is left out, but for the
  KeyError that \<open>_generate_event_description\<close> raises when the location lacks its
  latitude or longitude.
\<close>

definition enrich_event :: "satellite_data \<Rightarrow> event \<Rightarrow> py_exception + enriched_event" where
  "enrich_event data ev =
     (case d_location data of
        None \<Rightarrow> Inl KeyError
      | Some loc \<Rightarrow>
          if latitude loc = None \<or> longitude loc = None then Inl KeyError
          else Inr \<lparr>start_date = start_date ev,
                    end_date = end_date ev,
                    peak_date = peak_date ev,
                    duration_days = duration_days ev,
                    peak_value = peak_value ev,
                    intensity = intensity ev,
                    confidence = confidence ev,
                    ev_location = loc,
                  data_source = (case d_product_info data of None \<Rightarrow> [] | Some info \<Rightarrow> info),
                  event_type = classify_event_type ev,
                  confidence_level =
                    (if pf_gt (confidence ev) (Fin (8 / 10)) then ''high''
                     else if pf_gt (confidence ev) (Fin (6 / 10)) then ''medium''
                     else ''low'')\<rparr>)"

definition run_algorithm ::
  "(pyfloat list list \<Rightarrow> py_exception + nat list) \<Rightarrow> string \<Rightarrow> date list \<Rightarrow> pyfloat list
     \<Rightarrow> py_exception + event list" where
  "run_algorithm kmeans algorithm dates vals =
     (if algorithm = ''threshold'' then detect_by_threshold dates vals
      else if algorithm = ''change_detection'' then detect_by_change dates vals
      else if algorithm = ''seasonal_anomaly'' then detect_seasonal_anomaly dates vals
      else if algorithm = ''machine_learning'' then detect_by_ml kmeans dates vals
      else detect_by_change dates vals)"

text \<open>
  \<open>detect_events\<close>: \<open>detect_events_body\<close> is the body of the \<open>try\<close> block, and
  \<open>detect_events\<close> adds the handler, which returns the empty list for every exception.
\<close>

definition good_indices_of :: "string list \<Rightarrow> nat list" where
  "good_indices_of quality_flags = filter (\<lambda>i. quality_flags ! i = ''good'') [0..<length quality_flags]"

definition detect_events_body ::
  "(pyfloat list list \<Rightarrow> py_exception + nat list) \<Rightarrow> satellite_data \<Rightarrow> string
     \<Rightarrow> py_exception + enriched_event list" where
  "detect_events_body kmeans data algorithm =
     (if \<not> validate_data data then Inr []
      else
        case d_time_series data of None \<Rightarrow> Inl KeyError | Some ts \<Rightarrow>
       (case ts_dates ts of None \<Rightarrow> Inl KeyError | Some date_strings \<Rightarrow>
       (case ts_values ts of None \<Rightarrow> Inl KeyError | Some vals \<Rightarrow>
          py_bind (parse_dates date_strings) (\<lambda>dates.
            let quality_flags =
                  (case ts_quality_flags ts of None \<Rightarrow> replicate (length vals) ''good'' | Some f \<Rightarrow> f);
                good_indices = good_indices_of quality_flags
            in if length good_indices < 3 then Inr []
               else if \<exists>i\<in>set good_indices. length dates \<le> i \<or> length vals \<le> i then Inl IndexError
               else
                 let clean_dates = map (\<lambda>i. dates ! i) good_indices;
                     clean_values = map (\<lambda>i. vals ! i) good_indices;
                     smoothed_values = smooth_time_series clean_values
                 in py_bind (run_algorithm kmeans algorithm clean_dates smoothed_values) (\<lambda>events.
                      py_mapM (enrich_event data) events)))))"

definition detect_events ::
  "(pyfloat list list \<Rightarrow> py_exception + nat list) \<Rightarrow> satellite_data \<Rightarrow> string \<Rightarrow> enriched_event list" where
  "detect_events kmeans data algorithm =
     (case detect_events_body kmeans data algorithm of Inl e \<Rightarrow> [] | Inr events \<Rightarrow> events)"

section \<open>Forecaster\<close>

record prediction =
  p_date :: date
  predicted_ndvi :: pyfloat
  p_confidence :: pyfloat
  flowering_probability :: pyfloat

text \<open>
  \<open>_extract_seasonal_pattern\<close>: the dictionary from a day of the year to the mean of the
  values observed on that day, in the order of the series (\<open>zip\<close> stops at the shorter
  list).
\<close>

definition extract_seasonal_pattern :: "date list \<Rightarrow> pyfloat list \<Rightarrow> (int \<rightharpoonup> pyfloat)" where
  "extract_seasonal_pattern dates vals =
     (\<lambda>day. let day_values = map snd (filter (\<lambda>(d, v). tm_yday d = day) (zip dates vals))
            in if day_values = [] then None else Some (np_mean day_values))"

definition calculate_flowering_probability :: "pyfloat \<Rightarrow> (int \<rightharpoonup> pyfloat) \<Rightarrow> int \<Rightarrow> pyfloat" where
  "calculate_flowering_probability predicted_value seasonal_pattern day_of_year =
     (let typical_value = (case seasonal_pattern day_of_year of None \<Rightarrow> Fin (5 / 10) | Some t \<Rightarrow> t)
      in if pf_gt predicted_value (pf_mul typical_value (Fin (115 / 100)))
         then py_min (Fin 1) (pf_div (pf_sub predicted_value typical_value) typical_value)
         else Fin 0)"

text \<open>\<open>max(dates)\<close> raises ValueError on an empty list.\<close>

definition max_date :: "date list \<Rightarrow> py_exception + date" where
  "max_date dates = (case dates of [] \<Rightarrow> Inl ValueError | d # ds \<Rightarrow> Inr (foldl max d ds))"

text \<open>
  \<open>predict_flowering\<close>. The random generator is a parameter: \<open>normal i scale\<close> is the
  value that the \<open>i\<close>-th call \<open>np.random.normal(0, scale)\<close> of this run returns. The
  parameter \<open>species\<close> is not used by the code.
\<close>

definition predict_one ::
  "(nat \<Rightarrow> pyfloat \<Rightarrow> pyfloat) \<Rightarrow> (int \<rightharpoonup> pyfloat) \<Rightarrow> pyfloat list \<Rightarrow> nat \<times> date \<Rightarrow> prediction" where
  "predict_one normal seasonal_pattern vals p =
     (case p of (i, future_date) \<Rightarrow>
        let day_of_year = tm_yday future_date;
            base = (case seasonal_pattern day_of_year of None \<Rightarrow> np_mean vals | Some v \<Rightarrow> v);
            noise = normal i (pf_mul (np_std vals) (Fin (1 / 10)));
            predicted_value = pf_add base noise
        in \<lparr>p_date = future_date,
            predicted_ndvi = predicted_value,
            p_confidence = Fin (7 / 10),
            flowering_probability =
              calculate_flowering_probability predicted_value seasonal_pattern day_of_year\<rparr>)"

definition predict_flowering_body ::
  "(nat \<Rightarrow> pyfloat \<Rightarrow> pyfloat) \<Rightarrow> satellite_data \<Rightarrow> int \<Rightarrow> py_exception + prediction list" where
  "predict_flowering_body normal historical_data days_ahead =
     (case d_time_series historical_data of None \<Rightarrow> Inr [] | Some ts \<Rightarrow>
     (case ts_dates ts of None \<Rightarrow> Inl KeyError | Some date_strings \<Rightarrow>
        py_bind (parse_dates date_strings) (\<lambda>dates.
         (case ts_values ts of None \<Rightarrow> Inl KeyError | Some vals \<Rightarrow>
            let seasonal_pattern = extract_seasonal_pattern dates vals
            in py_bind (max_date dates) (\<lambda>last_date.
               py_bind (py_mapM (date_add last_date) [1..days_ahead]) (\<lambda>future_dates.
                 Inr (map (predict_one normal seasonal_pattern vals)
                        (zip [0..<length future_dates] future_dates))))))))"

definition predict_flowering ::
  "(nat \<Rightarrow> pyfloat \<Rightarrow> pyfloat) \<Rightarrow> satellite_data \<Rightarrow> int \<Rightarrow> prediction list" where
  "predict_flowering normal historical_data days_ahead =
     (case predict_flowering_body normal historical_data days_ahead of
        Inl e \<Rightarrow> [] | Inr predictions \<Rightarrow> predictions)"

section \<open>DataProcessor\<close>

text \<open>
  The cleaning pipeline works on the dictionary that its caller passes in.
  \<open>process_time_series\<close> copies the top-level dictionary only (\<open>raw_data.copy()\<close>), so
  the nested \<open>time_series\<close> dictionary of the copy is the caller's object, and the
  filters assign to its keys. The nested dictionaries therefore live in a store, and the
  top-level dictionary holds the address of its \<open>time_series\<close>. A computation takes the
  store and returns its result, or the exception it raised, with the store it left.
\<close>

type_synonym addr = nat

type_synonym heap = "addr \<Rightarrow> time_series"

record quality_metrics =
  total_observations :: nat
  good_quality_count :: nat
  interpolated_count :: nat
  outlier_corrected_count :: nat
  data_completeness :: pyfloat
  temporal_consistency :: pyfloat
  signal_to_noise_ratio :: pyfloat

record raw_data =
  r_time_series :: "addr option"
  r_location :: "location option"
  r_quality_metrics :: "quality_metrics option"

text \<open>\<open>np.nanmean\<close>: the mean of the values that are not NaN, NaN when there is none.\<close>

definition np_nanmean :: "pyfloat list \<Rightarrow> pyfloat" where
  "np_nanmean xs = (let obs = filter (\<lambda>x. x \<noteq> NaN) xs in if obs = [] then NaN else np_mean obs)"

text \<open>
  \<open>_interpolate_missing_values\<close>. \<open>values[mask]\<close> raises IndexError when the mask and
  the array differ in length, and so does an index beyond the array. The loop reads the
  original values and writes a copy, which is the result.
\<close>

definition left_neighbor :: "nat list \<Rightarrow> nat \<Rightarrow> nat option" where
  "left_neighbor valid_indices idx =
     (case filter (\<lambda>v. v < idx) valid_indices of [] \<Rightarrow> None | l # ls \<Rightarrow> Some (last (l # ls)))"

definition right_neighbor :: "nat list \<Rightarrow> nat \<Rightarrow> nat option" where
  "right_neighbor valid_indices idx =
     (case filter (\<lambda>v. idx < v) valid_indices of [] \<Rightarrow> None | r # rs \<Rightarrow> Some r)"

definition interpolated_value :: "pyfloat list \<Rightarrow> bool list \<Rightarrow> nat list \<Rightarrow> nat \<Rightarrow> py_exception + pyfloat" where
  "interpolated_value vals valid_mask valid_indices idx =
     (case (left_neighbor valid_indices idx, right_neighbor valid_indices idx) of
        (Some l, Some r) \<Rightarrow>
          if length vals \<le> l \<or> length vals \<le> r then Inl IndexError
          else
            let weight = Fin (real (idx - l) / real (r - l))
            in Inr (pf_add (pf_mul (vals ! l) (pf_sub (Fin 1) weight)) (pf_mul (vals ! r) weight))
      | (Some l, None) \<Rightarrow> if length vals \<le> l then Inl IndexError else Inr (vals ! l)
      | (None, Some r) \<Rightarrow> if length vals \<le> r then Inl IndexError else Inr (vals ! r)
      | (None, None) \<Rightarrow>
          if length valid_mask \<noteq> length vals then Inl IndexError
          else Inr (np_mean (map (\<lambda>i. vals ! i) valid_indices)))"

fun interpolate_loop ::
  "pyfloat list \<Rightarrow> bool list \<Rightarrow> nat list \<Rightarrow> nat list \<Rightarrow> pyfloat list \<Rightarrow> py_exception + pyfloat list" where
  "interpolate_loop vals valid_mask valid_indices [] result = Inr result"
| "interpolate_loop vals valid_mask valid_indices (idx # rest) result =
     py_bind (interpolated_value vals valid_mask valid_indices idx) (\<lambda>v.
       if length result \<le> idx then Inl IndexError
       else interpolate_loop vals valid_mask valid_indices rest (result[idx := v]))"

definition interpolate_missing_values :: "pyfloat list \<Rightarrow> bool list \<Rightarrow> py_exception + pyfloat list" where
  "interpolate_missing_values vals valid_mask =
     (let valid_indices = filter (\<lambda>i. valid_mask ! i) [0..<length valid_mask];
          invalid_indices = filter (\<lambda>i. \<not> valid_mask ! i) [0..<length valid_mask]
      in if length valid_indices < 2 then
           if length valid_mask \<noteq> length vals then Inl IndexError
           else
             let fill = np_nanmean (map (\<lambda>i. vals ! i) valid_indices)
             in Inr (map (\<lambda>i. if valid_mask ! i then vals ! i else fill) [0..<length vals])
         else interpolate_loop vals valid_mask valid_indices invalid_indices vals)"

text \<open>
  \<open>_apply_cloud_mask\<close>. The list of flags is empty when the key holds an empty list, and
  when the key is absent and \<open>values\<close> is empty; then \<open>np.array([])\<close> is an array of
  floats, on which \<open>~\<close> raises TypeError.
\<close>

definition apply_cloud_mask :: "raw_data \<Rightarrow> heap \<Rightarrow> (py_exception + raw_data) \<times> heap" where
  "apply_cloud_mask data h =
     (case r_time_series data of
        None \<Rightarrow> (Inr data, h)
      | Some a \<Rightarrow>
          (case ts_values (h a) of
             None \<Rightarrow> (Inl KeyError, h)
           | Some vals \<Rightarrow>
               let quality_flags =
                     (case ts_quality_flags (h a) of
                        None \<Rightarrow> replicate (length vals) ''good'' | Some f \<Rightarrow> f);
                   good_quality = map (\<lambda>flag. flag = ''good'') quality_flags
               in if good_quality = [] then (Inl TypeError, h)
                  else if False \<in> set good_quality then
                    (case interpolate_missing_values vals good_quality of
                       Inl e \<Rightarrow> (Inl e, h)
                     | Inr interpolated_values \<Rightarrow>
                         (Inr data,
                          h(a := (h a)\<lparr>ts_values := Some interpolated_values,
                                       ts_quality_flags :=
                                         Some (map (\<lambda>good. if \<not> good then ''interpolated'' else ''good'')
                                                 good_quality)\<rparr>)))
                  else (Inr data, h)))"

text \<open>
  \<open>np.percentile\<close> with the default linear interpolation between the two nearest ranks
  of the sorted array. A NaN in the array gives NaN. An empty array is taken to raise
  IndexError (numpy versions differ on it).
\<close>

fun pf_insort :: "pyfloat \<Rightarrow> pyfloat list \<Rightarrow> pyfloat list" where
  "pf_insort x [] = [x]"
| "pf_insort x (y # ys) = (if pf_lt y x then y # pf_insort x ys else x # y # ys)"

fun pf_sort :: "pyfloat list \<Rightarrow> pyfloat list" where
  "pf_sort [] = []"
| "pf_sort (x # xs) = pf_insort x (pf_sort xs)"

definition np_percentile :: "pyfloat list \<Rightarrow> real \<Rightarrow> py_exception + pyfloat" where
  "np_percentile vals q =
     (if vals = [] then Inl IndexError
      else if NaN \<in> set vals then Inr NaN
      else
        let sorted_vals = pf_sort vals;
            pos = q / 100 * real (length vals - 1);
            lo = nat \<lfloor>pos\<rfloor>;
            hi = min (lo + 1) (length vals - 1);
            t = pos - real lo;
            a = sorted_vals ! lo;
            b = sorted_vals ! hi;
            diff_b_a = pf_sub b a
        in Inr (if 1 / 2 \<le> t then pf_sub b (pf_mul diff_b_a (Fin (1 - t)))
                else pf_add a (pf_mul diff_b_a (Fin t))))"

text \<open>The mask \<open>is_outlier\<close> of \<open>_remove_outliers\<close>.\<close>

definition is_outlier_mask :: "pyfloat list \<Rightarrow> py_exception + bool list" where
  "is_outlier_mask vals =
     py_bind (np_percentile vals 25) (\<lambda>q25.
     py_bind (np_percentile vals 75) (\<lambda>q75.
       let iqr = pf_sub q75 q25;
           lower_bound = pf_sub q25 (pf_mul (Fin (15 / 10)) iqr);
           upper_bound = pf_add q75 (pf_mul (Fin (15 / 10)) iqr)
       in Inr (map (\<lambda>v. pf_lt v lower_bound \<or> pf_gt v upper_bound) vals)))"

text \<open>
  The loop \<open>quality_flags[i] = 'outlier_corrected'\<close> writes into the list of flags
  itself; it raises IndexError at the first outlier beyond the end of the list, after the
  earlier flags were written.
\<close>

fun flag_outliers :: "nat list \<Rightarrow> string list \<Rightarrow> py_exception option \<times> string list" where
  "flag_outliers [] quality_flags = (None, quality_flags)"
| "flag_outliers (i # rest) quality_flags =
     (if length quality_flags \<le> i then (Some IndexError, quality_flags)
      else flag_outliers rest (quality_flags[i := ''outlier_corrected'']))"

definition remove_outliers :: "raw_data \<Rightarrow> heap \<Rightarrow> (py_exception + raw_data) \<times> heap" where
  "remove_outliers data h =
     (case r_time_series data of
        None \<Rightarrow> (Inr data, h)
      | Some a \<Rightarrow>
          (case ts_values (h a) of
             None \<Rightarrow> (Inl KeyError, h)
           | Some vals \<Rightarrow>
               (case is_outlier_mask vals of
                  Inl e \<Rightarrow> (Inl e, h)
                | Inr is_outlier \<Rightarrow>
                    if True \<in> set is_outlier then
                      (case interpolate_missing_values vals (map Not is_outlier) of
                         Inl e \<Rightarrow> (Inl e, h)
                       | Inr clean_values \<Rightarrow>
                           let h1 = h(a := (h a)\<lparr>ts_values := Some clean_values\<rparr>);
                               outliers = filter (\<lambda>i. is_outlier ! i) [0..<length is_outlier]
                           in (case ts_quality_flags (h a) of
                                 None \<Rightarrow>
                                   (case flag_outliers outliers (replicate (length vals) ''good'') of
                                      (Some e, flags) \<Rightarrow> (Inl e, h1)
                                    | (None, flags) \<Rightarrow>
                                        (Inr data, h1(a := (h1 a)\<lparr>ts_quality_flags := Some flags\<rparr>)))
                               | Some quality_flags \<Rightarrow>
                                   (case flag_outliers outliers quality_flags of
                                      (Some e, flags) \<Rightarrow>
                                        (Inl e, h1(a := (h1 a)\<lparr>ts_quality_flags := Some flags\<rparr>))
                                    | (None, flags) \<Rightarrow>
                                        (Inr data, h1(a := (h1 a)\<lparr>ts_quality_flags := Some flags\<rparr>)))))
                    else (Inr data, h))))"

definition apply_temporal_smoothing :: "raw_data \<Rightarrow> heap \<Rightarrow> (py_exception + raw_data) \<times> heap" where
  "apply_temporal_smoothing data h =
     (case r_time_series data of
        None \<Rightarrow> (Inr data, h)
      | Some a \<Rightarrow>
          (case ts_values (h a) of
             None \<Rightarrow> (Inl KeyError, h)
           | Some vals \<Rightarrow>
               let window_size = min 5 (length vals div 2)
               in if 3 \<le> window_size
                  then (Inr data,
                        h(a := (h a)\<lparr>ts_values_smoothed := Some (rolling_mean window_size vals),
                                     ts_smoothing_applied := Some window_size\<rparr>))
                  else (Inr data, h)))"

definition aggregate_spatially :: "raw_data \<Rightarrow> heap \<Rightarrow> (py_exception + raw_data) \<times> heap" where
  "aggregate_spatially data h = (Inr data, h)"

text \<open>The test \<open>needle in text\<close> on strings.\<close>

fun starts_with :: "string \<Rightarrow> string \<Rightarrow> bool" where
  "starts_with s [] = True"
| "starts_with [] (p # ps) = False"
| "starts_with (c # cs) (p # ps) = (c = p \<and> starts_with cs ps)"

fun str_contains :: "string \<Rightarrow> string \<Rightarrow> bool" where
  "str_contains [] needle = (needle = [])"
| "str_contains (c # cs) needle = (starts_with (c # cs) needle \<or> str_contains cs needle)"

text \<open>\<open>np.clip(x, lo, hi)\<close> is \<open>minimum(maximum(x, lo), hi)\<close>.\<close>

definition approximate_evi_from_ndvi :: "pyfloat list \<Rightarrow> pyfloat list" where
  "approximate_evi_from_ndvi ndvi =
     map (\<lambda>v. np_min2 (np_max2
                 (pf_div (pf_mul (Fin (25 / 10)) v)
                    (pf_add (pf_sub (pf_add (Fin 1) (pf_mul (Fin 6) v)) (pf_mul (Fin (75 / 10)) v)) (Fin 1)))
                 (Fin (- 1))) (Fin 1))
       ndvi"

text \<open>
  \<open>_calculate_vegetation_indices\<close>: the approximated indices are assigned one after the
  other; \<open>np.min\<close> of an empty array raises ValueError after the first two were.
\<close>

definition calculate_vegetation_indices :: "raw_data \<Rightarrow> heap \<Rightarrow> (py_exception + raw_data) \<times> heap" where
  "calculate_vegetation_indices data h =
     (case r_time_series data of
        None \<Rightarrow> (Inr data, h)
      | Some a \<Rightarrow>
          (case ts_values (h a) of
             None \<Rightarrow> (Inl KeyError, h)
           | Some vals \<Rightarrow>
               if str_contains (case ts_units (h a) of None \<Rightarrow> [] | Some u \<Rightarrow> u) ''NDVI'' then
                 let h1 = h(a := (h a)\<lparr>ts_evi_approximated := Some (approximate_evi_from_ndvi vals),
                                        ts_savi_approximated :=
                                          Some (map (\<lambda>v. pf_div (pf_mul v (Fin (15 / 10)))
                                                           (pf_add v (Fin (5 / 10)))) vals)\<rparr>)
                 in (case (np_min vals, np_max vals) of
                       (Inr mn, Inr mx) \<Rightarrow>
                         (Inr data,
                          h1(a := (h1 a)\<lparr>ts_greenness_index :=
                                   Some (map (\<lambda>v. pf_div (pf_sub v mn) (pf_sub mx mn)) vals)\<rparr>))
                     | (Inl e, r) \<Rightarrow> (Inl e, h1)
                     | (Inr mn, Inl e) \<Rightarrow> (Inl e, h1))
               else (Inr data, h)))"

definition calculate_temporal_consistency :: "pyfloat list \<Rightarrow> pyfloat" where
  "calculate_temporal_consistency vals =
     (if length vals < 3 then Fin 1
      else
        let diffs = np_diff vals;
            mean_abs = np_mean (map pf_abs diffs);
            consistency =
              (if pf_gt mean_abs (Fin 0) then pf_sub (Fin 1) (pf_div (np_std diffs) mean_abs)
               else Fin 1)
        in py_max (Fin 0) (py_min (Fin 1) consistency))"

text \<open>
  \<open>_calculate_snr\<close>. For five values or more the residual \<open>values - signal\<close> and the
  signal are pandas series, whose standard deviation (\<open>ddof = 0\<close> here) leaves NaN out.
\<close>

definition pd_std0 :: "pyfloat list \<Rightarrow> pyfloat" where
  "pd_std0 xs = (let obs = filter (\<lambda>x. x \<noteq> NaN) xs in if obs = [] then NaN else np_std obs)"

definition calculate_snr :: "pyfloat list \<Rightarrow> pyfloat" where
  "calculate_snr vals =
     (if length vals < 3 then Fin 1
      else
        let snr =
              (if 5 \<le> length vals then
                 let signal = rolling_mean 5 vals;
                     noise = pd_std0 (map (\<lambda>(v, s). pf_sub v s) (zip vals signal));
                     signal_power = pd_std0 signal
                 in if pf_gt noise (Fin 0) then pf_div signal_power noise else PInf
               else if pf_gt (np_std vals) (Fin 0) then pf_div (np_mean vals) (np_std vals)
               else Fin 1)
        in py_min (Fin 100) (py_max (Fin (1 / 10)) snr))"

definition add_quality_metrics :: "raw_data \<Rightarrow> heap \<Rightarrow> (py_exception + raw_data) \<times> heap" where
  "add_quality_metrics data h =
     (case r_time_series data of
        None \<Rightarrow> (Inr data, h)
      | Some a \<Rightarrow>
          (case ts_values (h a) of
             None \<Rightarrow> (Inl KeyError, h)
           | Some vals \<Rightarrow>
               let quality_flags = (case ts_quality_flags (h a) of None \<Rightarrow> [] | Some f \<Rightarrow> f);
                   good = length (filter (\<lambda>flag. flag = ''good'') quality_flags)
               in (Inr (data\<lparr>r_quality_metrics := Some
                     \<lparr>total_observations = length vals,
                      good_quality_count = good,
                      interpolated_count =
                        length (filter (\<lambda>flag. str_contains flag ''interpolated'') quality_flags),
                      outlier_corrected_count =
                        length (filter (\<lambda>flag. str_contains flag ''outlier'') quality_flags),
                      data_completeness =
                        (if quality_flags \<noteq> [] then Fin (real good / real (length quality_flags))
                         else Fin 1),
                      temporal_consistency = calculate_temporal_consistency vals,
                      signal_to_noise_ratio = calculate_snr vals\<rparr>\<rparr>),
                   h)))"

text \<open>
  \<open>process_time_series\<close>. \<open>apply_filters\<close> is the loop over the filter names, an unknown
  name being skipped; \<open>run_pipeline\<close> is the body of the \<open>try\<close> block after the copy of
  the top-level dictionary; the handler returns \<open>raw_data\<close>, with the store as the body
  left it.
\<close>

definition apply_filter :: "string \<Rightarrow> raw_data \<Rightarrow> heap \<Rightarrow> (py_exception + raw_data) \<times> heap" where
  "apply_filter filter_name data h =
     (if filter_name = ''cloud_mask'' then apply_cloud_mask data h
      else if filter_name = ''outlier_removal'' then remove_outliers data h
      else if filter_name = ''temporal_smoothing'' then apply_temporal_smoothing data h
      else if filter_name = ''spatial_aggregation'' then aggregate_spatially data h
      else (Inr data, h))"

fun apply_filters :: "string list \<Rightarrow> raw_data \<Rightarrow> heap \<Rightarrow> (py_exception + raw_data) \<times> heap" where
  "apply_filters [] data h = (Inr data, h)"
| "apply_filters (filter_name # rest) data h =
     (case apply_filter filter_name data h of
        (Inl e, h') \<Rightarrow> (Inl e, h')
      | (Inr data', h') \<Rightarrow> apply_filters rest data' h')"

definition run_pipeline :: "string list option \<Rightarrow> raw_data \<Rightarrow> heap \<Rightarrow> (py_exception + raw_data) \<times> heap" where
  "run_pipeline filters raw h =
     (let filter_names =
            (case filters of
               None \<Rightarrow> [''cloud_mask'', ''outlier_removal'', ''temporal_smoothing'']
             | Some fs \<Rightarrow> fs)
      in case apply_filters filter_names raw h of
           (Inl e, h1) \<Rightarrow> (Inl e, h1)
         | (Inr data1, h1) \<Rightarrow>
             (case calculate_vegetation_indices data1 h1 of
                (Inl e, h2) \<Rightarrow> (Inl e, h2)
              | (Inr data2, h2) \<Rightarrow> add_quality_metrics data2 h2))"

definition process_time_series :: "string list option \<Rightarrow> raw_data \<Rightarrow> heap \<Rightarrow> raw_data \<times> heap" where
  "process_time_series filters raw h =
     (case run_pipeline filters raw h of
        (Inl e, h') \<Rightarrow> (raw, h')
      | (Inr processed_data, h') \<Rightarrow> (processed_data, h'))"


section \<open>Phenology metrics and export\<close>

text \<open>
  The result dictionary of \<open>calculate_phenology_metrics\<close>: a key that the code does not
  set is \<open>None\<close>, and \<open>no_metrics\<close> is the empty dictionary. Dates are kept as parsed.
\<close>

record phenology_metrics =
  start_of_season :: "date option"
  peak_of_season :: "date option"
  season_peak_value :: "pyfloat option"
  end_of_season :: "date option"
  season_length_days :: "int option"
  integrated_ndvi :: "pyfloat option"
  seasonal_amplitude :: "pyfloat option"

definition no_metrics :: phenology_metrics where
  "no_metrics =
     \<lparr>start_of_season = None, peak_of_season = None, season_peak_value = None,
      end_of_season = None, season_length_days = None, integrated_ndvi = None,
      seasonal_amplitude = None\<rparr>"

definition pf_ge :: "pyfloat \<Rightarrow> pyfloat \<Rightarrow> bool" where
  "pf_ge a b = pf_le b a"

definition find_season_start :: "pyfloat list \<Rightarrow> py_exception + nat option" where
  "find_season_start vals =
     (if length vals < 5 then Inr None
      else
        py_bind (np_min vals) (\<lambda>min_val.
        py_bind (np_max vals) (\<lambda>max_val.
          let threshold = pf_add min_val (pf_mul (Fin (1 / 5)) (pf_sub max_val min_val))
          in Inr (case filter (\<lambda>i. pf_lt (vals ! i) threshold \<and> pf_ge (vals ! (i + 1)) threshold)
                         [0..<length vals - 2] of
                    [] \<Rightarrow> None
                  | i # rest \<Rightarrow> Some (i + 1)))))"

definition find_season_end :: "pyfloat list \<Rightarrow> nat \<Rightarrow> nat option" where
  "find_season_end vals peak_idx =
     (if int (length vals) - 1 \<le> int peak_idx then None
      else
        let threshold = pf_mul (vals ! peak_idx) (Fin (1 / 2))
        in (case filter (\<lambda>i. pf_le (vals ! i) threshold) [peak_idx + 1..<length vals] of
              [] \<Rightarrow> Some (length vals - 1)
            | i # rest \<Rightarrow> Some i))"

text \<open>\<open>np.trapz\<close> with unit spacing: the sum of \<open>1.0 * (y[1:] + y[:-1]) / 2.0\<close>.\<close>

definition np_trapz :: "pyfloat list \<Rightarrow> pyfloat" where
  "np_trapz ys =
     np_sum (map (\<lambda>(a, b). pf_div (pf_mul (Fin 1) (pf_add b a)) (Fin 2)) (zip (butlast ys) (tl ys)))"

text \<open>
  \<open>calculate_phenology_metrics\<close> has no \<open>try\<close> block: a missing key, a date that
  \<open>strptime\<close> refuses, \<open>np.argmax\<close> of an empty array and an index past the end of
  \<open>dates\<close> reach the caller.
\<close>

definition calculate_phenology_metrics :: "raw_data \<Rightarrow> heap \<Rightarrow> py_exception + phenology_metrics" where
  "calculate_phenology_metrics data h =
     (case r_time_series data of
        None \<Rightarrow> Inr no_metrics
      | Some a \<Rightarrow>
     (case ts_dates (h a) of
        None \<Rightarrow> Inl KeyError
      | Some date_strings \<Rightarrow>
          py_bind (parse_dates date_strings) (\<lambda>dates.
         (case ts_values (h a) of
            None \<Rightarrow> Inl KeyError
          | Some vals \<Rightarrow>
              py_bind (find_season_start vals) (\<lambda>sos_idx.
              if (case sos_idx of None \<Rightarrow> False | Some i \<Rightarrow> length dates \<le> i) then Inl IndexError
              else
                py_bind (np_argmax vals) (\<lambda>pos_idx.
                if length dates \<le> pos_idx then Inl IndexError
                else
                  let eos_idx = find_season_end vals pos_idx
                  in if (case eos_idx of None \<Rightarrow> False | Some i \<Rightarrow> length dates \<le> i)
                     then Inl IndexError
                     else
                       py_bind (np_max vals) (\<lambda>max_val.
                       py_bind (np_min vals) (\<lambda>min_val.
                         Inr \<lparr>start_of_season = map_option (\<lambda>i. dates ! i) sos_idx,
                              peak_of_season = Some (dates ! pos_idx),
                              season_peak_value = Some (vals ! pos_idx),
                              end_of_season = map_option (\<lambda>i. dates ! i) eos_idx,
                              season_length_days =
                                (case sos_idx of
                                   None \<Rightarrow> None
                                 | Some s \<Rightarrow>
                                     (case eos_idx of
                                        None \<Rightarrow> None
                                      | Some e \<Rightarrow> Some (dates ! e - dates ! s))),
                              integrated_ndvi = Some (np_trapz vals),
                              seasonal_amplitude = Some (pf_sub max_val min_val)\<rparr>))))))))"

text \<open>
  \<open>export_processed_data\<close>. The two converters build their result with pandas and are
  parameters; the dispatch on the format name, with its \<open>raise ValueError\<close>, is the
  code's.
\<close>

datatype ('c, 'd) exported = AsJson raw_data | AsCsv 'c | AsDataFrame 'd

definition export_processed_data ::
  "(raw_data \<Rightarrow> heap \<Rightarrow> py_exception + 'c) \<Rightarrow> (raw_data \<Rightarrow> heap \<Rightarrow> py_exception + 'd)
     \<Rightarrow> raw_data \<Rightarrow> heap \<Rightarrow> string \<Rightarrow> py_exception + ('c, 'd) exported" where
  "export_processed_data convert_to_csv convert_to_dataframe data h format_type =
     (if format_type = ''json'' then Inr (AsJson data)
      else if format_type = ''csv'' then
        py_bind (convert_to_csv data h) (\<lambda>text. Inr (AsCsv text))
      else if format_type = ''dataframe'' then
        py_bind (convert_to_dataframe data h) (\<lambda>df. Inr (AsDataFrame df))
      else Inl ValueError)"
text \<open>
  Where the events of the algorithms come from: every event is built by \<open>group_event\<close>
  from a run of the grouping loop, whose indices are in increasing order, or by
  \<open>_track_flowering_event\<close>.
\<close>

abbreviation event_origin :: "date list \<Rightarrow> pyfloat list \<Rightarrow> event \<Rightarrow> bool" where
  "event_origin dates vals ev \<equiv>
     ((\<exists>grp. sorted grp \<and> group_event dates vals grp = Inr (Some ev))
      \<or> (\<exists>s. track_flowering_event dates vals s = Inr (Some ev)))"


text \<open>
  Two stores hold the same observations when every object has the same \<open>values\<close> and
  the same \<open>quality_flags\<close> in both.
\<close>

abbreviation same_observations :: "heap \<Rightarrow> heap \<Rightarrow> bool" where
  "same_observations h h' \<equiv>
     (\<forall>a. ts_values (h' a) = ts_values (h a) \<and> ts_quality_flags (h' a) = ts_quality_flags (h a))"
section \<open>Example inputs\<close>

text \<open>
  A series of four observations ten days apart that rises by 0.4 after smoothing, with
  every observation flagged \<open>good\<close>.
\<close>

definition rise_series :: time_series where
  "rise_series =
     \<lparr>ts_dates = Some [''2024-03-01'', ''2024-03-11'', ''2024-03-21'', ''2024-03-31''],
      ts_values = Some [Fin (- (2 / 5)), Fin (2 / 5), Fin 0, Fin (4 / 5)],
      ts_quality_flags = Some [''good'', ''good'', ''good'', ''good''],
      ts_units = None, ts_values_smoothed = None, ts_smoothing_applied = None,
      ts_evi_approximated = None, ts_savi_approximated = None, ts_greenness_index = None\<rparr>"

definition new_york :: location where
  "new_york = \<lparr>latitude = Some (Fin 40), longitude = Some (Fin (- 74))\<rparr>"

definition rise_data :: satellite_data where
  "rise_data = \<lparr>d_time_series = Some rise_series, d_location = Some new_york, d_product_info = None\<rparr>"

definition rise_event :: enriched_event where
  "rise_event =
     \<lparr>start_date = 738966, end_date = 738976, peak_date = 738966, duration_days = 10,
      peak_value = Fin (2 / 5), intensity = Fin (1 / 5), confidence = Fin (22 / 25),
      ev_location = new_york, data_source = [], event_type = ''typical_flowering'',
      confidence_level = ''high''\<rparr>"

text \<open>A clustering that always raises, for the runs that do not reach it.\<close>

definition kmeans0 :: "pyfloat list list \<Rightarrow> py_exception + nat list" where
  "kmeans0 features = Inl ValueError"

text \<open>The same series with the second and third observations flagged as cloudy.\<close>

definition cloudy_series :: time_series where
  "cloudy_series = rise_series\<lparr>ts_quality_flags := Some [''good'', ''cloudy'', ''cloudy'', ''good'']\<rparr>"

definition cloudy_data :: satellite_data where
  "cloudy_data = rise_data\<lparr>d_time_series := Some cloudy_series\<rparr>"

text \<open>The same series without the \<open>quality_flags\<close> key.\<close>

definition unflagged_series :: time_series where
  "unflagged_series = rise_series\<lparr>ts_quality_flags := None\<rparr>"

definition unflagged_data :: satellite_data where
  "unflagged_data = rise_data\<lparr>d_time_series := Some unflagged_series\<rparr>"

text \<open>
  Inputs of the forecaster: a generator whose every draw lies 0.8 standard deviations
  above the mean, a series whose only observation is dated 9999-12-31, and a series with
  negative index values (water or snow) observed on 2023-01-02 and 2024-01-01.
\<close>

definition normal_above :: "nat \<Rightarrow> pyfloat \<Rightarrow> pyfloat" where
  "normal_above i scale = pf_mul scale (Fin (4 / 5))"

definition last_day_series :: time_series where
  "last_day_series =
     \<lparr>ts_dates = Some [''9999-12-31''], ts_values = Some [Fin (1 / 2)],
      ts_quality_flags = Some [''good''],
      ts_units = None, ts_values_smoothed = None, ts_smoothing_applied = None,
      ts_evi_approximated = None, ts_savi_approximated = None, ts_greenness_index = None\<rparr>"

definition last_day_data :: satellite_data where
  "last_day_data = \<lparr>d_time_series = Some last_day_series, d_location = Some new_york, d_product_info = None\<rparr>"

definition water_series :: time_series where
  "water_series =
     \<lparr>ts_dates = Some [''2023-01-02'', ''2024-01-01''],
      ts_values = Some [Fin (- (1 / 5)), Fin (- (3 / 10))],
      ts_quality_flags = Some [''good'', ''good''],
      ts_units = None, ts_values_smoothed = None, ts_smoothing_applied = None,
      ts_evi_approximated = None, ts_savi_approximated = None, ts_greenness_index = None\<rparr>"

definition water_data :: satellite_data where
  "water_data = \<lparr>d_time_series = Some water_series, d_location = Some new_york, d_product_info = None\<rparr>"

text \<open>
  A constant series: ten observations of 0.5, five days apart, all flagged \<open>good\<close>.
  Only the day of the year differs between the rows of its feature matrix, so a
  clustering into three clusters cuts the series into three blocks of consecutive
  observations; \<open>kmeans_blocks\<close> returns the blocks of the first three, the next four
  and the last three observations.
\<close>

definition flat_series :: time_series where
  "flat_series =
     \<lparr>ts_dates = Some [''2024-03-01'', ''2024-03-06'', ''2024-03-11'', ''2024-03-16'', ''2024-03-21'',
                       ''2024-03-26'', ''2024-03-31'', ''2024-04-05'', ''2024-04-10'', ''2024-04-15''],
      ts_values = Some (replicate 10 (Fin (1 / 2))),
      ts_quality_flags = Some (replicate 10 ''good''),
      ts_units = None, ts_values_smoothed = None, ts_smoothing_applied = None,
      ts_evi_approximated = None, ts_savi_approximated = None, ts_greenness_index = None\<rparr>"

definition flat_data :: satellite_data where
  "flat_data = \<lparr>d_time_series = Some flat_series, d_location = Some new_york, d_product_info = None\<rparr>"

definition kmeans_blocks :: "pyfloat list list \<Rightarrow> py_exception + nat list" where
  "kmeans_blocks features = Inr [0, 0, 0, 1, 1, 1, 1, 2, 2, 2]"

definition flat_event :: enriched_event where
  "flat_event =
     \<lparr>start_date = 738946, end_date = 738956, peak_date = 738946, duration_days = 10,
      peak_value = Fin (1 / 2), intensity = Fin 0, confidence = Fin (18 / 25),
      ev_location = new_york, data_source = [], event_type = ''typical_flowering'',
      confidence_level = ''medium''\<rparr>"

text \<open>
  Inputs of the cleaning pipeline. The store \<open>store_of ts\<close> holds the series \<open>ts\<close> at
  address 0, and \<open>held_at_0\<close> is a top-level dictionary whose \<open>time_series\<close> is that
  object. \<open>bright_series\<close> has five observations flagged \<open>good\<close>, the last one much
  higher than the others; \<open>calm_series\<close> has five flagged \<open>good\<close> and close to each other;
  \<open>masked_series\<close> has three, the second one flagged as cloudy.
\<close>

definition empty_series :: time_series where
  "empty_series =
     \<lparr>ts_dates = None, ts_values = None, ts_quality_flags = None,
      ts_units = None, ts_values_smoothed = None, ts_smoothing_applied = None,
      ts_evi_approximated = None, ts_savi_approximated = None, ts_greenness_index = None\<rparr>"

definition store_of :: "time_series \<Rightarrow> heap" where
  "store_of ts = (\<lambda>a. empty_series)(0 := ts)"

definition held_at_0 :: raw_data where
  "held_at_0 = \<lparr>r_time_series = Some 0, r_location = Some new_york, r_quality_metrics = None\<rparr>"

definition bright_series :: time_series where
  "bright_series =
     empty_series
       \<lparr>ts_dates := Some [''2024-03-01'', ''2024-03-11'', ''2024-03-21'', ''2024-03-31'', ''2024-04-10''],
        ts_values := Some [Fin (3 / 10), Fin (8 / 25), Fin (31 / 100), Fin (33 / 100), Fin (9 / 10)],
        ts_quality_flags := Some [''good'', ''good'', ''good'', ''good'', ''good'']\<rparr>"

definition calm_series :: time_series where
  "calm_series =
     empty_series
       \<lparr>ts_dates := Some [''2024-03-01'', ''2024-03-11'', ''2024-03-21'', ''2024-03-31'', ''2024-04-10''],
        ts_values := Some [Fin (3 / 10), Fin (8 / 25), Fin (31 / 100), Fin (33 / 100), Fin (17 / 50)],
        ts_quality_flags := Some [''good'', ''good'', ''good'', ''good'', ''good'']\<rparr>"

definition masked_series :: time_series where
  "masked_series =
     empty_series
       \<lparr>ts_dates := Some [''2024-03-01'', ''2024-03-11'', ''2024-03-21''],
        ts_values := Some [Fin (1 / 5), Fin (9 / 10), Fin (2 / 5)],
        ts_quality_flags := Some [''good'', ''cloudy'', ''good'']\<rparr>"


text \<open>
  \<open>no_observations\<close> is a series with no observation at all; \<open>slashed_series\<close> has three
  observations flagged \<open>good\<close> whose dates are not in the format \<open>%Y-%m-%d\<close>, and
  \<open>slashed_data\<close> is the detector's and the forecaster's input with that series;
  \<open>empty_series\<close> is a \<open>time_series\<close> dictionary with no key. \<open>no_converter\<close> stands for
  a converter that is never reached.
\<close>

definition no_observations :: time_series where
  "no_observations =
     empty_series\<lparr>ts_dates := Some [], ts_values := Some [], ts_quality_flags := Some []\<rparr>"

definition slashed_series :: time_series where
  "slashed_series =
     empty_series
       \<lparr>ts_dates := Some [''2024/03/01'', ''2024/03/11'', ''2024/03/21''],
        ts_values := Some [Fin (1 / 5), Fin (3 / 10), Fin (2 / 5)],
        ts_quality_flags := Some [''good'', ''good'', ''good'']\<rparr>"

definition slashed_data :: satellite_data where
  "slashed_data =
     \<lparr>d_time_series = Some slashed_series, d_location = Some new_york, d_product_info = None\<rparr>"

definition no_converter :: "raw_data \<Rightarrow> heap \<Rightarrow> py_exception + unit" where
  "no_converter data h = Inr ()"
section \<open>Auxiliary facts\<close>

lemma py_bind_simps [simp]:
  "py_bind (Inl e) f = Inl e"
  "py_bind (Inr v) f = f v"
  by (simp_all add: py_bind_def)

lemma py_bind_Inr_iff: "py_bind r f = Inr y \<longleftrightarrow> (\<exists>v. r = Inr v \<and> f v = Inr y)"
  by (cases r) simp_all

lemma collect_events_mem:
  "collect_events f xs = Inr es \<Longrightarrow> e \<in> set es \<Longrightarrow> \<exists>x\<in>set xs. f x = Inr (Some e)"
proof (induction xs arbitrary: es)
  case Nil
  then show ?case by simp
next
  case (Cons x xs)
  from Cons.prems(1) obtain r es' where r: "f x = Inr r" and es': "collect_events f xs = Inr es'"
    and es: "es = (case r of None \<Rightarrow> es' | Some e \<Rightarrow> e # es')"
    by (auto simp: py_bind_Inr_iff)
  show ?case
  proof (cases r)
    case None
    with es Cons.prems(2) have "e \<in> set es'" by simp
    with Cons.IH [OF es'] show ?thesis by auto
  next
    case (Some a)
    with es Cons.prems(2) have "e = a \<or> e \<in> set es'" by auto
    then show ?thesis
    proof
      assume "e = a"
      with r Some show ?thesis by simp
    next
      assume "e \<in> set es'"
      with Cons.IH [OF es'] show ?thesis by auto
    qed
  qed
qed

lemma py_mapM_mem:
  "py_mapM f xs = Inr ys \<Longrightarrow> y \<in> set ys \<Longrightarrow> \<exists>x\<in>set xs. f x = Inr y"
proof (induction xs arbitrary: ys)
  case Nil
  then show ?case by simp
next
  case (Cons x xs)
  from Cons.prems(1) obtain z zs where z: "f x = Inr z" and zs: "py_mapM f xs = Inr zs"
    and ys: "ys = z # zs"
    by (auto simp: py_bind_Inr_iff)
  from ys Cons.prems(2) have "y = z \<or> y \<in> set zs" by auto
  then show ?case
  proof
    assume "y = z"
    with z show ?thesis by simp
  next
    assume "y \<in> set zs"
    with Cons.IH [OF zs] show ?thesis by auto
  qed
qed

lemma py_mapM_length: "py_mapM f xs = Inr ys \<Longrightarrow> length ys = length xs"
proof (induction xs arbitrary: ys)
  case Nil
  then show ?case by simp
next
  case (Cons x xs)
  from Cons.prems obtain z zs where "py_mapM f xs = Inr zs" and "ys = z # zs"
    by (auto simp: py_bind_Inr_iff)
  with Cons.IH show ?case by simp
qed

lemma argmax_from_bound: "bi < i \<Longrightarrow> argmax_from xs i bi bv < i + length xs"
proof (induction xs arbitrary: i bi bv)
  case Nil
  then show ?case by simp
next
  case (Cons x xs)
  have a: "argmax_from xs (Suc i) i x < Suc i + length xs" using Cons.IH [of i "Suc i" x] by simp
  have b: "argmax_from xs (Suc i) bi bv < Suc i + length xs" using Cons.IH [of bi "Suc i" bv] Cons.prems by simp
  show ?case using a b Cons.prems by simp
qed

lemma np_argmax_bound: "np_argmax xs = Inr k \<Longrightarrow> k < length xs"
proof (cases xs)
  case Nil
  assume "np_argmax xs = Inr k"
  with Nil show ?thesis by (simp add: np_argmax_def)
next
  case (Cons x rest)
  assume "np_argmax xs = Inr k"
  with Cons have "k = argmax_from rest 1 0 x" by (simp add: np_argmax_def)
  with argmax_from_bound [of 0 1 rest x] Cons show ?thesis by simp
qed

lemma group_loop_sorted:
  "group_loop ex i cur groups = (gs, c) \<Longrightarrow> sorted cur \<Longrightarrow> \<forall>x\<in>set cur. x < i
     \<Longrightarrow> \<forall>g\<in>set groups. sorted g \<Longrightarrow> (\<forall>g\<in>set gs. sorted g) \<and> sorted c"
proof (induction ex arbitrary: i cur groups)
  case Nil
  then show ?case by simp
next
  case (Cons e ex)
  show ?case
  proof (cases e)
    case True
    with Cons.prems(1) have gl: "group_loop ex (Suc i) (cur @ [i]) groups = (gs, c)" by simp
    have "\<forall>x\<in>set cur. x \<le> i" using Cons.prems(3) by (simp add: less_imp_le)
    then have s: "sorted (cur @ [i])" using Cons.prems(2) by (simp add: sorted_append)
    have b: "\<forall>x\<in>set (cur @ [i]). x < Suc i" using Cons.prems(3) by (simp add: less_Suc_eq)
    show ?thesis by (rule Cons.IH [OF gl s b Cons.prems(4)])
  next
    case False
    show ?thesis
    proof (cases "cur = []")
      case True
      with False Cons.prems(1) have gl: "group_loop ex (Suc i) cur groups = (gs, c)" by simp
      have b: "\<forall>x\<in>set cur. x < Suc i" using True by simp
      show ?thesis by (rule Cons.IH [OF gl Cons.prems(2) b Cons.prems(4)])
    next
      case nonempty: False
      with False Cons.prems(1) have gl: "group_loop ex (Suc i) [] (groups @ [cur]) = (gs, c)" by simp
      have g: "\<forall>g\<in>set (groups @ [cur]). sorted g" using Cons.prems(2,4) by simp
      have s: "sorted ([]::nat list)" by simp
      have b: "\<forall>x\<in>set ([]::nat list). x < Suc i" by simp
      show ?thesis by (rule Cons.IH [OF gl s b g])
    qed
  qed
qed

lemma find_groups_sorted: "g \<in> set (find_groups ex) \<Longrightarrow> sorted g"
proof -
  assume g: "g \<in> set (find_groups ex)"
  obtain gs c where gl: "group_loop ex 0 [] [] = (gs, c)" by (cases "group_loop ex 0 [] []")
  have "sorted ([]::nat list)" "\<forall>x\<in>set ([]::nat list). x < 0" "\<forall>g\<in>set ([]::nat list list). sorted g"
    by simp_all
  from group_loop_sorted [OF gl this] have a: "\<forall>g\<in>set gs. sorted g" and b: "sorted c" by simp_all
  from g gl have "g \<in> set gs \<or> g = c" by (auto simp: find_groups_def split: if_splits)
  with a b show ?thesis by blast
qed

lemma clip_unit: "\<exists>r. py_max (Fin 0) (py_min (Fin 1) x) = Fin r \<and> 0 \<le> r \<and> r \<le> 1"
  by (cases x) (simp_all add: py_max_def py_min_def pf_gt_def)

lemma calculate_confidence_range:
  assumes "calculate_confidence idx vals = Inr c"
  shows "\<exists>r. c = Fin r \<and> 0 \<le> r \<and> r \<le> 1"
proof (cases "idx = []")
  case True
  with assms have "c = Fin 0" by (simp add: calculate_confidence_def)
  then show ?thesis by simp
next
  case False
  with assms obtain x where "c = py_max (Fin 0) (py_min (Fin 1) x)"
    by (auto simp: calculate_confidence_def py_bind_Inr_iff Let_def split: if_splits)
  with clip_unit [of x] show ?thesis by simp
qed

lemma group_event_confidence:
  assumes "group_event dates vals grp = Inr (Some ev)"
  shows "calculate_confidence grp vals = Inr (confidence ev)"
  using assms
  by (auto simp: group_event_def py_bind_Inr_iff Let_def split: if_splits)

lemma track_confidence:
  assumes "track_flowering_event dates vals s = Inr (Some ev)"
  shows "\<exists>idx. calculate_confidence idx vals = Inr (confidence ev)"
  using assms
  by (auto simp: track_flowering_event_def py_bind_Inr_iff Let_def split: if_splits prod.splits)

lemma group_consecutive_origin:
  assumes "group_consecutive_exceedances dates vals ex = Inr evs" and "ev \<in> set evs"
  shows "event_origin dates vals ev"
proof -
  from collect_events_mem [OF assms [unfolded group_consecutive_exceedances_def]]
  obtain grp where "grp \<in> set (find_groups ex)" and "group_event dates vals grp = Inr (Some ev)"
    by blast
  with find_groups_sorted [of grp ex] show ?thesis by auto
qed

lemma detect_by_change_origin:
  assumes "detect_by_change dates vals = Inr evs" and "ev \<in> set evs"
  shows "event_origin dates vals ev"
proof (cases "length vals < 5")
  case True
  with assms show ?thesis by (simp add: detect_by_change_def)
next
  case False
  with assms(1) obtain starts where "collect_events (track_flowering_event dates vals) starts = Inr evs"
    by (auto simp: detect_by_change_def Let_def)
  from collect_events_mem [OF this assms(2)] show ?thesis by auto
qed

lemma ml_clustering_origin:
  assumes "ml_clustering kmeans dates vals features = Inr evs" and "ev \<in> set evs"
  shows "event_origin dates vals ev"
proof -
  from assms(1) obtain ex where "evs = [] \<or> group_consecutive_exceedances dates vals ex = Inr evs"
    by (auto simp: ml_clustering_def py_bind_Inr_iff Let_def split: if_splits list.splits)
  then show ?thesis
  proof
    assume "evs = []"
    with assms(2) show ?thesis by simp
  next
    assume "group_consecutive_exceedances dates vals ex = Inr evs"
    from group_consecutive_origin [OF this assms(2)] show ?thesis .
  qed
qed

lemma detect_by_ml_origin:
  assumes "detect_by_ml kmeans dates vals = Inr evs" and "ev \<in> set evs"
  shows "event_origin dates vals ev"
proof (cases "length vals < 10")
  case True
  with assms show ?thesis by (simp add: detect_by_ml_def)
next
  case False
  with assms(1) obtain features where
    r: "(case ml_clustering kmeans dates vals features of
           Inl e \<Rightarrow> detect_by_change dates vals | Inr events \<Rightarrow> Inr events) = Inr evs"
    by (auto simp: detect_by_ml_def py_bind_Inr_iff)
  show ?thesis
  proof (cases "ml_clustering kmeans dates vals features")
    case (Inl e)
    with r have "detect_by_change dates vals = Inr evs" by simp
    from detect_by_change_origin [OF this assms(2)] show ?thesis .
  next
    case (Inr events)
    with r have "ml_clustering kmeans dates vals features = Inr evs" by simp
    from ml_clustering_origin [OF this assms(2)] show ?thesis .
  qed
qed

lemma run_algorithm_origin:
  assumes "run_algorithm kmeans algorithm dates vals = Inr evs" and "ev \<in> set evs"
  shows "event_origin dates vals ev"
proof -
  from assms(1) have
    "detect_by_threshold dates vals = Inr evs \<or> detect_by_change dates vals = Inr evs
     \<or> detect_seasonal_anomaly dates vals = Inr evs \<or> detect_by_ml kmeans dates vals = Inr evs"
    by (simp add: run_algorithm_def split: if_splits)
  then consider
      (thr) "detect_by_threshold dates vals = Inr evs"
    | (chg) "detect_by_change dates vals = Inr evs"
    | (sea) "detect_seasonal_anomaly dates vals = Inr evs"
    | (ml) "detect_by_ml kmeans dates vals = Inr evs"
    by blast
  then show ?thesis
  proof cases
    case thr
    then obtain ex where "group_consecutive_exceedances dates vals ex = Inr evs"
      by (auto simp: detect_by_threshold_def Let_def)
    from group_consecutive_origin [OF this assms(2)] show ?thesis .
  next
    case chg
    from detect_by_change_origin [OF this assms(2)] show ?thesis .
  next
    case sea
    show ?thesis
    proof (cases "length vals < 10")
      case True
      with sea assms(2) show ?thesis by (simp add: detect_seasonal_anomaly_def)
    next
      case False
      with sea obtain ex where "group_consecutive_exceedances dates vals ex = Inr evs"
        by (auto simp: detect_seasonal_anomaly_def Let_def split: if_splits)
      from group_consecutive_origin [OF this assms(2)] show ?thesis .
    qed
  next
    case ml
    from detect_by_ml_origin [OF this assms(2)] show ?thesis .
  qed
qed

lemma enrich_event_fields:
  assumes "enrich_event data ev = Inr e"
  shows "start_date e = start_date ev" "end_date e = end_date ev" "peak_date e = peak_date ev"
    "duration_days e = duration_days ev" "confidence e = confidence ev"
  using assms by (auto simp: enrich_event_def split: option.splits if_splits)

lemma good_indices_sorted: "sorted_wrt (<) (good_indices_of flags)"
  unfolding good_indices_of_def by (rule sorted_wrt_filter) simp

lemma detect_events_origin:
  assumes e: "e \<in> set (detect_events kmeans data algorithm)"
  shows "\<exists>ts ds dates gi cvals ev.
           d_time_series data = Some ts \<and> ts_dates ts = Some ds \<and> parse_dates ds = Inr dates
           \<and> sorted_wrt (<) gi \<and> (\<forall>i\<in>set gi. i < length dates)
           \<and> enrich_event data ev = Inr e
           \<and> event_origin (map (\<lambda>i. dates ! i) gi) cvals ev"
proof -
  from e obtain es where body: "detect_events_body kmeans data algorithm = Inr es" and mem: "e \<in> set es"
    by (cases "detect_events_body kmeans data algorithm") (simp_all add: detect_events_def)
  have valid: "validate_data data"
  proof (rule ccontr)
    assume "\<not> validate_data data"
    with body mem show False by (simp add: detect_events_body_def)
  qed
  from body valid obtain ts where ts: "d_time_series data = Some ts"
    by (cases "d_time_series data") (simp_all add: detect_events_body_def)
  from body valid ts obtain ds where ds: "ts_dates ts = Some ds"
    by (cases "ts_dates ts") (simp_all add: detect_events_body_def)
  from body valid ts ds obtain vals where vs: "ts_values ts = Some vals"
    by (cases "ts_values ts") (simp_all add: detect_events_body_def)
  from body valid ts ds vs obtain dates where pd: "parse_dates ds = Inr dates"
    by (cases "parse_dates ds") (simp_all add: detect_events_body_def)
  define flags where
    "flags = (case ts_quality_flags ts of None \<Rightarrow> replicate (length vals) ''good'' | Some f \<Rightarrow> f)"
  define gi where "gi = good_indices_of flags"
  have enough: "\<not> length gi < 3"
  proof
    assume "length gi < 3"
    with body valid ts ds vs pd have "es = []"
      by (simp add: detect_events_body_def gi_def flags_def)
    with mem show False by simp
  qed
  have inrange: "\<not> (\<exists>i\<in>set gi. length dates \<le> i \<or> length vals \<le> i)"
  proof
    assume "\<exists>i\<in>set gi. length dates \<le> i \<or> length vals \<le> i"
    with body valid ts ds vs pd enough show False
      by (simp add: detect_events_body_def gi_def flags_def)
  qed
  define cvals where "cvals = smooth_time_series (map (\<lambda>i. vals ! i) gi)"
  from body valid ts ds vs pd enough inrange
  have "py_bind (run_algorithm kmeans algorithm (map (\<lambda>i. dates ! i) gi) cvals)
          (py_mapM (enrich_event data)) = Inr es"
    by (simp add: detect_events_body_def gi_def [symmetric] flags_def [symmetric] cvals_def Let_def)
  then obtain evs where run: "run_algorithm kmeans algorithm (map (\<lambda>i. dates ! i) gi) cvals = Inr evs"
    and enr: "py_mapM (enrich_event data) evs = Inr es"
    by (auto simp: py_bind_Inr_iff)
  from py_mapM_mem [OF enr mem] obtain ev where ev: "ev \<in> set evs" and en: "enrich_event data ev = Inr e"
    by blast
  from run_algorithm_origin [OF run ev]
  have orig: "event_origin (map (\<lambda>i. dates ! i) gi) cvals ev" .
  have srt: "sorted_wrt (<) gi" unfolding gi_def by (rule good_indices_sorted)
  from inrange have rng: "\<forall>i\<in>set gi. i < length dates" by (auto simp: not_le)
  from ts ds pd srt rng en orig show ?thesis by blast
qed

section \<open>The detector on the example input\<close>

lemmas date_defs = strptime_def year_token_def month_token_def day_token_def parse_digits_def
  is_digit_def ymd2ord_def days_in_month_def days_before_month_def days_before_year_def is_leap_def

lemma sqrt_25th: "sqrt (1 / 25) = 1 / 5"
  by (rule real_sqrt_unique) (simp_all add: power2_eq_square)

lemma rise_dates:
  "parse_dates [''2024-03-01'', ''2024-03-11'', ''2024-03-21'', ''2024-03-31'']
     = Inr [738946, 738956, 738966, 738976]"
  by (simp add: date_defs)

lemma rise_smooth:
  "smooth_time_series [Fin (- (2 / 5)), Fin (2 / 5), Fin 0, Fin (4 / 5)]
     = [Fin 0, Fin 0, Fin (2 / 5), Fin (2 / 5)]"
  by (simp add: smooth_time_series_def smoothing_window_def rolling_mean_def np_mean_def)

lemma rise_confidence:
  "calculate_confidence [2, 3] [Fin 0, Fin 0, Fin (2 / 5), Fin (2 / 5)] = Inr (Fin (22 / 25))"
  by (simp add: calculate_confidence_def np_max_def np_max2_def np_mean_def np_std_def pf_sub_def
      pf_gt_def py_min_def py_max_def sqrt_25th)

lemma rise_threshold:
  "detect_by_threshold [738946, 738956, 738966, 738976] [Fin 0, Fin 0, Fin (2 / 5), Fin (2 / 5)]
     = Inr [\<lparr>start_date = 738966, end_date = 738976, peak_date = 738966, duration_days = 10,
             peak_value = Fin (2 / 5), intensity = Fin (1 / 5), confidence = Fin (22 / 25)\<rparr>]"
  by (simp add: detect_by_threshold_def group_consecutive_exceedances_def find_groups_def
      group_event_def np_argmax_def np_mean_def pf_sub_def pf_gt_def ndvi_flowering_threshold_def
      min_duration_days_def max_duration_days_def
      rise_confidence [simplified numeral_2_eq_2 numeral_3_eq_3])

lemma rise_detect: "detect_events kmeans rise_data ''threshold'' = [rise_event]"
  by (simp add: detect_events_def detect_events_body_def validate_data_def rise_data_def
      rise_series_def rise_dates good_indices_of_def rise_smooth run_algorithm_def rise_threshold
      enrich_event_def new_york_def classify_event_type_def pf_gt_def rise_event_def
      del: parse_dates.simps)

section \<open>Facts about the forecaster\<close>

lemma py_mapM_all:
  "(\<And>x. x \<in> set xs \<Longrightarrow> f x = Inr (g x)) \<Longrightarrow> py_mapM f xs = Inr (map g xs)"
  by (induction xs) simp_all

lemma foldl_max_Max: "foldl max (d::int) ds = Max (set (d # ds))"
proof -
  have "foldl max d ds = fold max ds d"
    by (simp add: foldl_conv_fold max.commute)
  also have "\<dots> = Max (set (d # ds))" by (rule Max.set_eq_fold [symmetric])
  finally show ?thesis .
qed

lemma max_date_Max: "dates \<noteq> [] \<Longrightarrow> max_date dates = Inr (Max (set dates))"
  using foldl_max_Max by (cases dates) (simp_all add: max_date_def)

lemma p_date_predict_one: "p_date (predict_one normal sp vals (i, d)) = d"
  by (simp add: predict_one_def Let_def)

lemma map_p_date_predict:
  "length is = length ds \<Longrightarrow> map p_date (map (predict_one normal sp vals) (zip is ds)) = ds"
proof (induction "is" ds rule: list_induct2)
  case Nil
  then show ?case by simp
next
  case (Cons i "is" d ds)
  then show ?case by (simp add: p_date_predict_one)
qed

lemma days_before_month_nonneg:
  assumes "1 \<le> m" and "m \<le> 12"
  shows "0 \<le> days_before_month y m"
proof -
  from assms have "m = 1 \<or> m = 2 \<or> m = 3 \<or> m = 4 \<or> m = 5 \<or> m = 6 \<or> m = 7 \<or> m = 8
      \<or> m = 9 \<or> m = 10 \<or> m = 11 \<or> m = 12" by arith
  then show ?thesis by (auto simp: days_before_month_def)
qed

lemma days_before_year_nonneg:
  assumes "1 \<le> y"
  shows "0 \<le> days_before_year y"
proof -
  have "(y - 1) div 100 \<le> (y - 1) div 4" using assms by (intro zdiv_mono2) simp_all
  moreover have "0 \<le> (y - 1) div 400" using assms by simp
  moreover have "0 \<le> (y - 1) * 365" using assms by simp
  ultimately show ?thesis by (simp add: days_before_year_def Let_def)
qed

lemma month_token_range: "month_token s = Some m \<Longrightarrow> 1 \<le> m \<and> m \<le> 12"
  by (auto simp: month_token_def split: if_splits option.splits)

lemma day_token_range: "day_token s = Some d \<Longrightarrow> 1 \<le> d \<and> d \<le> 31"
  by (auto simp: day_token_def split: if_splits option.splits)

lemma strptime_positive:
  assumes "strptime s = Inr d"
  shows "1 \<le> d"
proof -
  from assms obtain ys ms dds y m dd where
    "year_token ys = Some y" "month_token ms = Some m" "day_token dds = Some dd"
    "1 \<le> y" "d = ymd2ord y m dd"
    by (auto simp: strptime_def split: list.splits option.splits if_splits)
  with month_token_range [of ms m] day_token_range [of dds dd]
    days_before_month_nonneg [of m y] days_before_year_nonneg [of y]
  show ?thesis by (simp add: ymd2ord_def)
qed

lemma parse_dates_positive:
  "parse_dates ss = Inr ds \<Longrightarrow> d \<in> set ds \<Longrightarrow> 1 \<le> d"
proof (induction ss arbitrary: ds)
  case Nil
  then show ?case by simp
next
  case (Cons s ss)
  from Cons.prems(1) obtain x xs where x: "strptime s = Inr x" and xs: "parse_dates ss = Inr xs"
    and ds: "ds = x # xs"
    by (auto simp: py_bind_Inr_iff)
  from Cons.prems(2) ds have "d = x \<or> d \<in> set xs" by auto
  then show ?case
  proof
    assume "d = x"
    with strptime_positive [OF x] show ?thesis by simp
  next
    assume "d \<in> set xs"
    from Cons.IH [OF xs this] show ?thesis .
  qed
qed

lemma sqrt_400th: "sqrt (1 / 400) = 1 / 20"
  by (rule real_sqrt_unique) (simp_all add: power2_eq_square)

lemma last_day_dates: "parse_dates [''9999-12-31''] = Inr [3652059]"
  by (simp add: date_defs)

lemma water_dates: "parse_dates [''2023-01-02'', ''2024-01-01''] = Inr [738522, 738886]"
  by (simp add: date_defs)

lemma water_std: "np_std [Fin (- (1 / 5)), Fin (- (3 / 10))] = Fin (1 / 20)"
  by (simp add: np_std_def np_mean_def pf_sub_def sqrt_400th)

lemma water_pattern_2:
  "extract_seasonal_pattern [738522, 738886] [Fin (- (1 / 5)), Fin (- (3 / 10))] 2 = Some (Fin (- (1 / 5)))"
  by (simp add: extract_seasonal_pattern_def tm_yday_def np_mean_def)

text \<open>With a positive typical value the probability does lie between 0 and 1.\<close>

lemma flowering_probability_positive_typical:
  assumes "seasonal_pattern day = Some (Fin t)" and "0 < t"
  shows "\<exists>r. calculate_flowering_probability p seasonal_pattern day = Fin r \<and> 0 \<le> r \<and> r \<le> 1"
proof (cases p)
  case (Fin x)
  show ?thesis
  proof (cases "t * (115 / 100) < x")
    case True
    with assms(2) have "0 \<le> (x - t) / t" by (simp add: field_simps)
    with True Fin assms show ?thesis
      by (simp add: calculate_flowering_probability_def pf_gt_def pf_sub_def py_min_def)
  next
    case False
    with Fin assms show ?thesis
      by (simp add: calculate_flowering_probability_def pf_gt_def)
  qed
next
  case PInf
  with assms show ?thesis
    by (simp add: calculate_flowering_probability_def pf_gt_def pf_sub_def py_min_def)
next
  case NInf
  with assms show ?thesis by (simp add: calculate_flowering_probability_def pf_gt_def)
next
  case NaN
  with assms show ?thesis by (simp add: calculate_flowering_probability_def pf_gt_def)
qed

section \<open>Facts about constant series\<close>

lemma np_sum_replicate: "np_sum (replicate k (Fin c)) = Fin (real k * c)"
  by (induction k) (simp_all add: algebra_simps)

lemma np_mean_replicate: "0 < k \<Longrightarrow> np_mean (replicate k (Fin c)) = Fin c"
  by (simp add: np_mean_def np_sum_replicate)

lemma np_std_replicate: "0 < k \<Longrightarrow> np_std (replicate k (Fin c)) = Fin 0"
  by (simp add: np_std_def np_mean_replicate pf_sub_def Let_def)

lemma map_upt_const: "(\<And>i. i < n \<Longrightarrow> f i = x) \<Longrightarrow> map f [0..<n] = replicate n x"
proof -
  assume a: "\<And>i. i < n \<Longrightarrow> f i = x"
  have "map f [0..<n] = map (\<lambda>i. x) [0..<n]" by (rule map_cong) (simp_all add: a)
  then show ?thesis by (simp add: map_replicate_const)
qed

lemma window_replicate:
  assumes "s < e" and "s < n"
  shows "(if filter is_finite (take (e - s) (drop s (replicate n (Fin c)))) = [] then NaN
          else np_mean (filter is_finite (take (e - s) (drop s (replicate n (Fin c)))))) = Fin c"
proof -
  define k where "k = min (e - s) (n - s)"
  from assms have kpos: "0 < k" unfolding k_def by simp
  have "take (e - s) (drop s (replicate n (Fin c))) = replicate k (Fin c)"
    unfolding k_def by (simp add: min.commute)
  then have "filter is_finite (take (e - s) (drop s (replicate n (Fin c)))) = replicate k (Fin c)"
    by simp
  with kpos show ?thesis by (simp add: np_mean_replicate)
qed

lemma rolling_window_replicate:
  assumes "0 < w" and "i < n"
  shows "(let off = (w - 1) div 2;
              e = min (length (replicate n (Fin c))) (i + 1 + off);
              s = (i + 1 + off) - w;
              obs = filter is_finite (take (e - s) (drop s (replicate n (Fin c))))
          in if obs = [] then NaN else np_mean obs) = Fin c"
proof -
  define off where "off = (w - 1) div 2"
  have "off \<le> w - 1" unfolding off_def by simp
  with assms have "(i + 1 + off) - w \<le> i" by simp
  with assms have sn: "(i + 1 + off) - w < n" by simp
  from assms have "(i + 1 + off) - w < i + 1 + off" by simp
  with sn have se: "(i + 1 + off) - w < min n (i + 1 + off)" by simp
  from window_replicate [OF se sn, of c] show ?thesis
    unfolding Let_def length_replicate off_def .
qed

lemma rolling_mean_replicate:
  assumes "0 < w"
  shows "rolling_mean w (replicate n (Fin c)) = replicate n (Fin c)"
proof -
  have "rolling_mean w (replicate n (Fin c))
      = map (\<lambda>i. let off = (w - 1) div 2;
                     e = min (length (replicate n (Fin c))) (i + 1 + off);
                     s = (i + 1 + off) - w;
                     obs = filter is_finite (take (e - s) (drop s (replicate n (Fin c))))
                 in if obs = [] then NaN else np_mean obs) [0..<n]"
    by (simp add: rolling_mean_def)
  also have "\<dots> = replicate n (Fin c)"
    by (rule map_upt_const) (rule rolling_window_replicate [OF assms])
  finally show ?thesis .
qed

lemma smooth_replicate: "smooth_time_series (replicate n (Fin c)) = replicate n (Fin c)"
  by (simp add: smooth_time_series_def smoothing_window_def rolling_mean_replicate)

lemma np_diff_replicate: "np_diff (replicate n (Fin c)) = replicate (n - 1) (Fin 0)"
proof (induction n)
  case 0
  then show ?case by simp
next
  case (Suc n)
  show ?case
  proof (cases n)
    case 0
    then show ?thesis by simp
  next
    case (Suc m)
    with Suc.IH show ?thesis by (simp add: pf_sub_def)
  qed
qed

lemma group_loop_no_exceed:
  "\<forall>x\<in>set ex. \<not> x \<Longrightarrow> group_loop ex i [] groups = (groups, [])"
proof (induction ex arbitrary: i)
  case Nil
  then show ?case by simp
next
  case (Cons e ex)
  from Cons.prems have e: "\<not> e" by simp
  from Cons.prems have rest: "\<forall>x\<in>set ex. \<not> x" by auto
  from Cons.IH [OF rest, of "Suc i"] e show ?case by simp
qed

lemma find_groups_no_exceed: "\<forall>x\<in>set ex. \<not> x \<Longrightarrow> find_groups ex = []"
  by (simp add: find_groups_def group_loop_no_exceed)

lemma group_consecutive_no_exceed:
  "\<forall>x\<in>set ex. \<not> x \<Longrightarrow> group_consecutive_exceedances dates vals ex = Inr []"
  by (simp add: group_consecutive_exceedances_def find_groups_no_exceed)

lemma threshold_mask_flat:
  "map (\<lambda>(v, b). pf_gt (pf_sub v b) ndvi_flowering_threshold)
     (zip (replicate n (Fin c)) (replicate n (Fin c))) = replicate n False"
  by (simp add: zip_replicate pf_sub_def pf_gt_def ndvi_flowering_threshold_def)

lemma detect_by_threshold_flat:
  "detect_by_threshold dates (replicate n (Fin c)) = Inr []"
proof -
  let ?vals = "replicate n (Fin c)"
  have base: "(if min (length ?vals div 3) 10 < 2 then replicate (length ?vals) (np_mean ?vals)
               else rolling_mean (min (length ?vals div 3) 10) ?vals) = ?vals"
  proof (cases "n = 0")
    case True
    then show ?thesis by (simp add: rolling_mean_def)
  next
    case False
    then have "np_mean ?vals = Fin c" by (simp add: np_mean_replicate)
    then show ?thesis by (simp add: rolling_mean_replicate)
  qed
  have none: "\<forall>x\<in>set (replicate n False). \<not> x" by simp
  show ?thesis
    unfolding detect_by_threshold_def Let_def base threshold_mask_flat
    by (rule group_consecutive_no_exceed [OF none])
qed

lemma change_mask_flat:
  assumes "0 < m"
  shows "map (\<lambda>d. pf_gt d (pf_mul (np_std (replicate m (Fin 0))) (Fin (15 / 10)))) (replicate m (Fin 0))
           = replicate m False"
  using assms by (simp add: np_std_replicate pf_gt_def)

lemma no_event_starts:
  "filter (\<lambda>i. replicate m False ! i \<and> (i = 0 \<or> \<not> replicate m False ! (i - 1)))
     [0..<length (replicate m False)] = []"
  by (simp add: filter_empty_conv)

lemma detect_by_change_flat:
  "detect_by_change dates (replicate n (Fin c)) = Inr []"
proof (cases "n < 5")
  case True
  then show ?thesis by (simp add: detect_by_change_def)
next
  case False
  then have pos: "0 < n - 1" by simp
  from False have "detect_by_change dates (replicate n (Fin c))
      = collect_events (track_flowering_event dates (replicate n (Fin c)))
          (filter (\<lambda>i. replicate (n - 1) False ! i \<and> (i = 0 \<or> \<not> replicate (n - 1) False ! (i - 1)))
             [0..<length (replicate (n - 1) False)])"
    unfolding detect_by_change_def Let_def np_diff_replicate smooth_replicate
      change_mask_flat [OF pos]
    by simp
  then show ?thesis unfolding no_event_starts by simp
qed

lemma filter_not_nan_replicate: "filter (\<lambda>x. x \<noteq> NaN) (replicate k (Fin c)) = replicate k (Fin c)"
  by simp

lemma pd_group_std_flat: "\<not> pf_gt (pd_group_std (replicate k (Fin c))) (Fin 0)"
proof (cases "k < 2")
  case True
  then show ?thesis by (simp add: pd_group_std_def pf_gt_def)
next
  case False
  then have pos: "0 < k" by simp
  have sq: "map (\<lambda>x. pf_mul (pf_sub x (Fin c)) (pf_sub x (Fin c))) (replicate k (Fin c))
          = replicate k (Fin 0)"
    by (simp add: pf_sub_def)
  from False have k1: "real (k - 1) \<noteq> 0" by simp
  from False have "pd_group_std (replicate k (Fin c)) = Fin 0"
    unfolding pd_group_std_def Let_def filter_not_nan_replicate np_mean_replicate [OF pos] sq
      np_sum_replicate length_replicate
    using k1 by simp
  then show ?thesis by (simp add: pf_gt_def)
qed

lemma all_equal_replicate: "\<forall>x\<in>set xs. x = a \<Longrightarrow> xs = replicate (length xs) a"
  by (induction xs) simp_all

lemma seasonal_group_flat:
  "\<exists>k. map snd (filter P (zip days (replicate n (Fin c)))) = replicate k (Fin c)"
proof -
  let ?grp = "map snd (filter P (zip days (replicate n (Fin c))))"
  have "\<forall>x\<in>set ?grp. x = Fin c"
  proof
    fix x assume "x \<in> set ?grp"
    then obtain d where "(d, x) \<in> set (zip days (replicate n (Fin c)))" by auto
    then have "x \<in> set (replicate n (Fin c))" by (rule set_zip_rightD)
    then show "x = Fin c" by simp
  qed
  from all_equal_replicate [OF this] show ?thesis by blast
qed

lemma seasonal_anomaly_flat:
  "(let grp = map snd (filter P (zip days (replicate n (Fin c))));
        mean_val = pd_group_mean grp;
        std_val = pd_group_std grp
    in if pf_gt std_val (Fin 0) then pf_div (pf_sub v mean_val) std_val else Fin 0) = Fin 0"
proof -
  from seasonal_group_flat [of P days n c] obtain k where
    "map snd (filter P (zip days (replicate n (Fin c)))) = replicate k (Fin c)" by blast
  with pd_group_std_flat [of k c] show ?thesis by (simp add: Let_def)
qed

lemma detect_seasonal_anomaly_flat:
  assumes "length dates = n"
  shows "detect_seasonal_anomaly dates (replicate n (Fin c)) = Inr []"
proof (cases "n < 10")
  case True
  then show ?thesis by (simp add: detect_seasonal_anomaly_def)
next
  case False
  let ?days = "map tm_yday dates"
  let ?anomaly = "\<lambda>(day, v).
       let grp = map snd (filter (\<lambda>(d, x). d = day) (zip ?days (replicate n (Fin c))));
           mean_val = pd_group_mean grp;
           std_val = pd_group_std grp
       in if pf_gt std_val (Fin 0) then pf_div (pf_sub v mean_val) std_val else Fin 0"
  have a: "?anomaly p = Fin 0" for p
    by (cases p) (simp only: prod.case seasonal_anomaly_flat)
  have m: "map ?anomaly (zip ?days (replicate n (Fin c)))
         = map (\<lambda>p. Fin 0) (zip ?days (replicate n (Fin c)))"
    by (rule map_cong [OF refl]) (rule a)
  have none: "\<forall>x\<in>set (map (\<lambda>a. pf_gt a anomaly_threshold_sigma)
                 (map ?anomaly (zip ?days (replicate n (Fin c))))). \<not> x"
    unfolding m by (simp add: pf_gt_def anomaly_threshold_sigma_def)
  from False assms group_consecutive_no_exceed [OF none] show ?thesis
    unfolding detect_seasonal_anomaly_def Let_def by simp
qed

lemma detect_by_ml_short:
  "length vals < 10 \<Longrightarrow> detect_by_ml kmeans dates vals = Inr []"
  by (simp add: detect_by_ml_def)

lemma run_algorithm_flat:
  assumes "length dates = n" and "algorithm \<noteq> ''machine_learning'' \<or> n < 10"
  shows "run_algorithm kmeans algorithm dates (replicate n (Fin c)) = Inr []"
proof (cases "algorithm = ''machine_learning''")
  case True
  with assms(2) have "n < 10" by simp
  with True show ?thesis by (simp add: run_algorithm_def detect_by_ml_short)
next
  case False
  then show ?thesis
    by (simp add: run_algorithm_def detect_by_threshold_flat detect_by_change_flat
        detect_seasonal_anomaly_flat [OF assms(1)])
qed

lemma replicate_10: "replicate 10 x = [x, x, x, x, x, x, x, x, x, x]"
  by (simp add: numeral_eq_Suc)

lemma flat_dates:
  "parse_dates [''2024-03-01'', ''2024-03-06'', ''2024-03-11'', ''2024-03-16'', ''2024-03-21'',
                ''2024-03-26'', ''2024-03-31'', ''2024-04-05'', ''2024-04-10'', ''2024-04-15'']
     = Inr [738946, 738951, 738956, 738961, 738966, 738971, 738976, 738981, 738986, 738991]"
  by (simp add: date_defs)

lemma feature_vector_defined:
  assumes "i < length vals" and "i < length dates"
  shows "\<exists>f. feature_vector dates vals i = Inr f"
proof -
  let ?w = "take (min (length vals) (i + 3) - (i - 2)) (drop (i - 2) vals)"
  from assms(1) have "?w \<noteq> []" by auto
  then obtain x rest where "?w = x # rest" by (cases ?w) auto
  with assms(2) show ?thesis
    by (simp add: feature_vector_def Let_def np_max_def np_min_def)
qed

lemma py_mapM_defined:
  "\<forall>x\<in>set xs. \<exists>y. f x = Inr y \<Longrightarrow> \<exists>ys. py_mapM f xs = Inr ys"
proof (induction xs)
  case Nil
  then show ?case by simp
next
  case (Cons x xs)
  from Cons.prems obtain y where y: "f x = Inr y" by auto
  from Cons.prems have "\<forall>x\<in>set xs. \<exists>y. f x = Inr y" by simp
  from Cons.IH [OF this] obtain ys where "py_mapM f xs = Inr ys" by blast
  with y show ?case by simp
qed

lemma features_defined:
  assumes "length vals \<le> length dates"
  shows "\<exists>fs. py_mapM (feature_vector dates vals) [0..<length vals] = Inr fs"
proof (rule py_mapM_defined)
  show "\<forall>i\<in>set [0..<length vals]. \<exists>y. feature_vector dates vals i = Inr y"
    using assms by (auto intro!: feature_vector_defined)
qed

lemma flat_confidence:
  "calculate_confidence [0, 1, 2] (replicate 10 (Fin (1 / 2))) = Inr (Fin (18 / 25))"
  by (simp add: calculate_confidence_def np_max_def np_max2_def np_mean_def np_std_def pf_sub_def
      pf_gt_def py_min_def py_max_def replicate_10)

lemma flat_clustering:
  "ml_clustering kmeans_blocks
     [738946, 738951, 738956, 738961, 738966, 738971, 738976, 738981, 738986, 738991]
     (replicate 10 (Fin (1 / 2))) fs
   = Inr [\<lparr>start_date = 738946, end_date = 738956, peak_date = 738946, duration_days = 10,
           peak_value = Fin (1 / 2), intensity = Fin 0, confidence = Fin (18 / 25)\<rparr>]"
  by (simp add: ml_clustering_def kmeans_blocks_def replicate_10 np_mean_def pf_gt_def
      group_consecutive_exceedances_def find_groups_def group_event_def np_argmax_def
      min_duration_days_def max_duration_days_def pf_sub_def
      flat_confidence [simplified replicate_10 numeral_2_eq_2 One_nat_def])

lemma flat_ml:
  "detect_by_ml kmeans_blocks
     [738946, 738951, 738956, 738961, 738966, 738971, 738976, 738981, 738986, 738991]
     (replicate 10 (Fin (1 / 2)))
   = Inr [\<lparr>start_date = 738946, end_date = 738956, peak_date = 738946, duration_days = 10,
           peak_value = Fin (1 / 2), intensity = Fin 0, confidence = Fin (18 / 25)\<rparr>]"
proof -
  let ?dates = "[738946, 738951, 738956, 738961, 738966, 738971, 738976, 738981, 738986, 738991 :: int]"
  let ?vals = "replicate 10 (Fin (1 / 2))"
  have "length ?vals \<le> length ?dates" by simp
  from features_defined [OF this] obtain fs where
    fs: "py_mapM (feature_vector ?dates ?vals) [0..<length ?vals] = Inr fs" by blast
  show ?thesis
    unfolding detect_by_ml_def fs py_bind_simps flat_clustering by simp
qed

section \<open>The cleaning pipeline\<close>

text \<open>The cloud mask and the outlier filter return at once when they find nothing to correct.\<close>

lemma cloud_mask_all_good:
  assumes "r_time_series data = Some a" and "ts_values (h a) = Some vals"
    and "ts_quality_flags (h a) = Some flags" and "\<forall>f\<in>set flags. f = ''good''"
    and "flags \<noteq> []"
  shows "apply_cloud_mask data h = (Inr data, h)"
proof -
  from assms(4) have "False \<notin> set (map (\<lambda>flag. flag = ''good'') flags)" by auto
  with assms(1-3,5) show ?thesis unfolding apply_cloud_mask_def Let_def by (simp del: set_map)
qed

lemma cloud_mask_no_flags:
  assumes "r_time_series data = Some a" and "ts_values (h a) = Some vals"
    and "ts_quality_flags (h a) = Some []"
  shows "process_time_series None data h = (data, h)"
  using assms
  by (simp add: process_time_series_def run_pipeline_def apply_filter_def apply_cloud_mask_def)

lemma remove_outliers_none:
  assumes "r_time_series data = Some a" and "ts_values (h a) = Some vals"
    and "is_outlier_mask vals = Inr out" and "True \<notin> set out"
  shows "remove_outliers data h = (Inr data, h)"
  using assms by (simp add: remove_outliers_def)

text \<open>
  The smoothing filter, the vegetation indices and the quality metrics write keys other
  than \<open>values\<close> and \<open>quality_flags\<close>, or raise; the metrics go into the copy of the
  top-level dictionary.
\<close>

lemma smoothing_frame:
  "\<exists>r h'. apply_temporal_smoothing data h = (r, h') \<and> (r = Inr data \<or> (\<exists>e. r = Inl e))
     \<and> same_observations h h'"
  by (simp add: apply_temporal_smoothing_def Let_def split: option.splits)

lemma indices_frame:
  "\<exists>r h'. calculate_vegetation_indices data h = (r, h') \<and> (r = Inr data \<or> (\<exists>e. r = Inl e))
     \<and> same_observations h h'"
  by (simp add: calculate_vegetation_indices_def Let_def split: option.splits sum.splits)

lemma metrics_frame:
  "\<exists>r. add_quality_metrics data h = (r, h)
     \<and> ((\<exists>d. r = Inr d \<and> r_time_series d = r_time_series data) \<or> (\<exists>e. r = Inl e))"
  by (simp add: add_quality_metrics_def Let_def split: option.splits)

text \<open>
  So the observations that \<open>process_time_series\<close> leaves in the store are those left by
  the cloud mask and the outlier filter.
\<close>

lemma pipeline_tail_frame:
  assumes "apply_cloud_mask raw h = (Inr raw, h1)" and "remove_outliers raw h1 = (Inr raw, h2)"
  shows "r_time_series (fst (process_time_series None raw h)) = r_time_series raw
       \<and> same_observations h2 (snd (process_time_series None raw h))"
proof -
  from smoothing_frame [of raw h2] obtain r3 h3 where
    sm: "apply_temporal_smoothing raw h2 = (r3, h3)" and r3: "r3 = Inr raw \<or> (\<exists>e. r3 = Inl e)"
    and f3: "same_observations h2 h3" by blast
  have filters: "apply_filters [''cloud_mask'', ''outlier_removal'', ''temporal_smoothing''] raw h
      = (r3, h3)"
    using r3 by (auto simp add: apply_filter_def assms sm)
  from r3 show ?thesis
  proof
    assume r3': "r3 = Inr raw"
    from indices_frame [of raw h3] obtain r4 h4 where
      vi: "calculate_vegetation_indices raw h3 = (r4, h4)" and r4: "r4 = Inr raw \<or> (\<exists>e. r4 = Inl e)"
      and f4: "same_observations h3 h4" by blast
    from r4 show ?thesis
    proof
      assume r4': "r4 = Inr raw"
      from metrics_frame [of raw h4] obtain r5 where
        qm: "add_quality_metrics raw h4 = (r5, h4)"
        and r5: "(\<exists>d. r5 = Inr d \<and> r_time_series d = r_time_series raw) \<or> (\<exists>e. r5 = Inl e)"
        by blast
      from r5 show ?thesis
      proof
        assume "\<exists>d. r5 = Inr d \<and> r_time_series d = r_time_series raw"
        then obtain d where "r5 = Inr d" "r_time_series d = r_time_series raw" by blast
        then show ?thesis using filters r3' vi r4' qm f3 f4
          by (simp add: process_time_series_def run_pipeline_def)
      next
        assume "\<exists>e. r5 = Inl e"
        then obtain e where "r5 = Inl e" by blast
        then show ?thesis using filters r3' vi r4' qm f3 f4
          by (simp add: process_time_series_def run_pipeline_def)
      qed
    next
      assume "\<exists>e. r4 = Inl e"
      then obtain e where "r4 = Inl e" by blast
      then show ?thesis using filters r3' vi f3 f4
        by (simp add: process_time_series_def run_pipeline_def)
    qed
  next
    assume "\<exists>e. r3 = Inl e"
    then obtain e where "r3 = Inl e" by blast
    then show ?thesis using filters f3
      by (simp add: process_time_series_def run_pipeline_def)
  qed
qed

text \<open>The filters on the example series.\<close>

lemma calm_mask:
  "is_outlier_mask [Fin (3 / 10), Fin (8 / 25), Fin (31 / 100), Fin (33 / 100), Fin (17 / 50)]
     = Inr [False, False, False, False, False]"
  by (simp add: is_outlier_mask_def np_percentile_def pf_sub_def pf_gt_def)

lemma bright_mask:
  "is_outlier_mask [Fin (3 / 10), Fin (8 / 25), Fin (31 / 100), Fin (33 / 100), Fin (9 / 10)]
     = Inr [False, False, False, False, True]"
  by (simp add: is_outlier_mask_def np_percentile_def pf_sub_def pf_gt_def)

lemma bright_interpolation:
  "interpolate_missing_values
     [Fin (3 / 10), Fin (8 / 25), Fin (31 / 100), Fin (33 / 100), Fin (9 / 10)]
     [True, True, True, True, False]
     = Inr [Fin (3 / 10), Fin (8 / 25), Fin (31 / 100), Fin (33 / 100), Fin (33 / 100)]"
  by (simp add: interpolate_missing_values_def interpolated_value_def left_neighbor_def
      right_neighbor_def pf_sub_def)

lemma bright_cloud_mask:
  "apply_cloud_mask held_at_0 (store_of bright_series) = (Inr held_at_0, store_of bright_series)"
  by (simp add: apply_cloud_mask_def held_at_0_def store_of_def bright_series_def empty_series_def)

lemma bright_outliers:
  "\<exists>h2. remove_outliers held_at_0 (store_of bright_series) = (Inr held_at_0, h2)
     \<and> ts_values (h2 0)
         = Some [Fin (3 / 10), Fin (8 / 25), Fin (31 / 100), Fin (33 / 100), Fin (33 / 100)]
     \<and> ts_quality_flags (h2 0) = Some [''good'', ''good'', ''good'', ''good'', ''outlier_corrected'']"
  by (simp add: remove_outliers_def held_at_0_def store_of_def bright_series_def empty_series_def
      bright_mask bright_interpolation Let_def)

lemma masked_interpolation:
  "interpolate_missing_values [Fin (1 / 5), Fin (9 / 10), Fin (2 / 5)] [True, False, True]
     = Inr [Fin (1 / 5), Fin (3 / 10), Fin (2 / 5)]"
  by (simp add: interpolate_missing_values_def interpolated_value_def left_neighbor_def
      right_neighbor_def pf_sub_def)

lemma masked_mask:
  "is_outlier_mask [Fin (1 / 5), Fin (3 / 10), Fin (2 / 5)] = Inr [False, False, False]"
  by (simp add: is_outlier_mask_def np_percentile_def pf_sub_def pf_gt_def)

lemma masked_cloud_mask:
  "\<exists>h1. apply_cloud_mask held_at_0 (store_of masked_series) = (Inr held_at_0, h1)
     \<and> ts_values (h1 0) = Some [Fin (1 / 5), Fin (3 / 10), Fin (2 / 5)]
     \<and> ts_quality_flags (h1 0) = Some [''good'', ''interpolated'', ''good'']"
  by (simp add: apply_cloud_mask_def held_at_0_def store_of_def masked_series_def empty_series_def
      masked_interpolation Let_def)

section \<open>Phenology metrics, export and the handlers\<close>

text \<open>
  \<open>calculate_phenology_metrics\<close> returns the empty dictionary when there is no
  \<open>time_series\<close>, and a dictionary of metrics whenever the dates parse, there is at
  least one value and \<open>dates\<close> is not shorter than \<open>values\<close>: the indices of the start,
  the peak and the end of the season are positions of \<open>values\<close>.
\<close>

lemma slashed_date: "strptime ''2024/03/01'' = Inl ValueError"
  by (simp add: date_defs)

lemma np_argmax_returns:
  assumes "vals \<noteq> []"
  shows "\<exists>k. np_argmax vals = Inr k \<and> k < length vals"
proof -
  from assms obtain x rest where v: "vals = x # rest" by (cases vals) auto
  have "argmax_from rest 1 0 x < 1 + length rest" by (rule argmax_from_bound) simp
  with v show ?thesis by (simp add: np_argmax_def)
qed

lemma filter_head_member:
  "filter P xs = i # rest \<Longrightarrow> i \<in> set xs"
proof -
  assume "filter P xs = i # rest"
  then have "i \<in> set (filter P xs)" by simp
  then show ?thesis by simp
qed

lemma find_season_start_bound:
  "\<exists>r. find_season_start vals = Inr r \<and> (case r of None \<Rightarrow> True | Some i \<Rightarrow> i < length vals)"
proof (cases "length vals < 5")
  case True
  then show ?thesis by (simp add: find_season_start_def)
next
  case False
  then obtain x rest where v: "vals = x # rest" by (cases vals) auto
  define P where "P = (\<lambda>i. pf_lt (vals ! i)
       (pf_add (foldl np_min2 x rest) (pf_mul (Fin (1 / 5)) (pf_sub (foldl np_max2 x rest) (foldl np_min2 x rest))))
     \<and> pf_ge (vals ! (i + 1))
       (pf_add (foldl np_min2 x rest) (pf_mul (Fin (1 / 5)) (pf_sub (foldl np_max2 x rest) (foldl np_min2 x rest)))))"
  have eq: "find_season_start vals
      = Inr (case filter P [0..<length vals - 2] of [] \<Rightarrow> None | i # r \<Rightarrow> Some (i + 1))"
    using False v unfolding find_season_start_def P_def
    by (simp add: np_min_def np_max_def py_bind_def Let_def)
  show ?thesis
  proof (cases "filter P [0..<length vals - 2]")
    case Nil
    with eq show ?thesis by simp
  next
    case (Cons i r)
    from filter_head_member [OF Cons] have "i < length vals - 2" by simp
    with eq Cons show ?thesis by simp
  qed
qed

lemma find_season_end_bound:
  assumes "vals \<noteq> []"
  shows "case find_season_end vals k of None \<Rightarrow> True | Some i \<Rightarrow> i < length vals"
proof (cases "int (length vals) - 1 \<le> int k")
  case True
  then show ?thesis by (simp add: find_season_end_def)
next
  case False
  show ?thesis
  proof (cases "filter (\<lambda>i. pf_le (vals ! i) (pf_mul (vals ! k) (Fin (1 / 2)))) [k + 1..<length vals]")
    case Nil
    with False assms show ?thesis by (simp add: find_season_end_def Let_def)
  next
    case (Cons i r)
    from filter_head_member [OF Cons] have "i < length vals" by simp
    with False Cons show ?thesis by (simp add: find_season_end_def Let_def)
  qed
qed

lemma phenology_returns:
  assumes a: "r_time_series data = Some a"
    and ds: "ts_dates (h a) = Some date_strings"
    and pd: "parse_dates date_strings = Inr dates"
    and vs: "ts_values (h a) = Some vals"
    and ne: "vals \<noteq> []"
    and len: "length vals \<le> length dates"
  shows "\<exists>m. calculate_phenology_metrics data h = Inr m"
proof -
  from find_season_start_bound [of vals] obtain sos where
    s: "find_season_start vals = Inr sos"
    and sb: "case sos of None \<Rightarrow> True | Some i \<Rightarrow> i < length vals" by blast
  from np_argmax_returns [OF ne] obtain k where k: "np_argmax vals = Inr k" and kb: "k < length vals"
    by blast
  from ne obtain x rest where v: "vals = x # rest" by (cases vals) auto
  have mx: "np_max vals = Inr (foldl np_max2 x rest)" using v by (simp add: np_max_def)
  have mn: "np_min vals = Inr (foldl np_min2 x rest)" using v by (simp add: np_min_def)
  have s1: "\<not> (case sos of None \<Rightarrow> False | Some i \<Rightarrow> length dates \<le> i)"
    using sb len by (cases sos) auto
  have e1: "\<not> (case find_season_end vals k of None \<Rightarrow> False | Some i \<Rightarrow> length dates \<le> i)"
    using find_season_end_bound [OF ne, of k] len by (cases "find_season_end vals k") auto
  have k1: "\<not> length dates \<le> k" using kb len by simp
  show ?thesis
    unfolding calculate_phenology_metrics_def
    using a ds pd vs s k mx mn s1 e1 k1
    by (simp add: py_bind_def Let_def del: parse_dates.simps)
qed

lemma phenology_without_time_series:
  "r_time_series data = None \<Longrightarrow> calculate_phenology_metrics data h = Inr no_metrics"
  by (simp add: calculate_phenology_metrics_def)

text \<open>\<open>export_processed_data\<close> raises ValueError for a format it does not know.\<close>

lemma export_unsupported_format:
  "export_processed_data no_converter no_converter held_at_0 (store_of calm_series) ''xml''
     = Inl ValueError"
  by (simp add: export_processed_data_def)

text \<open>
  On a series whose dates are not in the format \<open>%Y-%m-%d\<close> the bodies of
  \<open>detect_events\<close> and \<open>predict_flowering\<close> raise, and the handlers return the empty
  list; on a \<open>time_series\<close> dictionary with no key the body of \<open>process_time_series\<close>
  raises, and the handler returns the dictionary that was passed in.
\<close>

lemma slashed_detect: "detect_events_body kmeans0 slashed_data ''threshold'' = Inl ValueError"
  by (simp add: detect_events_body_def validate_data_def slashed_data_def slashed_series_def
      empty_series_def slashed_date py_bind_def)

lemma slashed_predict: "predict_flowering_body normal_above slashed_data 3 = Inl ValueError"
  by (simp add: predict_flowering_body_def slashed_data_def slashed_series_def
      empty_series_def slashed_date py_bind_def)

lemma keyless_pipeline: "fst (run_pipeline None held_at_0 (store_of empty_series)) = Inl KeyError"
  by (simp add: run_pipeline_def apply_filter_def apply_cloud_mask_def held_at_0_def store_of_def
      empty_series_def)

lemma siblings_fail_soft:
  "detect_events kmeans0 slashed_data ''threshold'' = []
   \<and> predict_flowering normal_above slashed_data 3 = []
   \<and> fst (process_time_series None held_at_0 (store_of empty_series)) = held_at_0"
  using slashed_detect slashed_predict keyless_pipeline
  by (auto simp add: detect_events_def predict_flowering_def process_time_series_def
      split: prod.splits sum.splits)

section \<open>Quality flags of the detector's input\<close>

lemma good_indices_filter:
  "map (\<lambda>i. flags ! i) (good_indices_of flags) = filter (\<lambda>f. f = ''good'') flags"
proof -
  have "filter (\<lambda>f. f = ''good'') (map (\<lambda>i. flags ! i) [0..<length flags])
      = map (\<lambda>i. flags ! i) (filter ((\<lambda>f. f = ''good'') \<circ> (\<lambda>i. flags ! i)) [0..<length flags])"
    by (rule filter_map)
  then show ?thesis by (simp add: good_indices_of_def map_nth comp_def)
qed

lemma good_indices_length:
  "length (good_indices_of flags) = length (filter (\<lambda>f. f = ''good'') flags)"
  using arg_cong [OF good_indices_filter, of length flags] by simp

lemma good_indices_replicate: "good_indices_of (replicate n ''good'') = [0..<n]"
proof -
  have "filter (\<lambda>i. replicate n ''good'' ! i = ''good'') [0..<n] = [0..<n]"
    by (rule filter_True) simp
  then show ?thesis by (simp add: good_indices_of_def)
qed

lemma detect_events_body_few_good:
  assumes ts: "d_time_series data = Some ts"
    and flags: "ts_quality_flags ts = Some flags"
    and few: "length (filter (\<lambda>f. f = ''good'') flags) < 3"
  shows "detect_events_body kmeans data algorithm = Inr []
       \<or> (\<exists>e. detect_events_body kmeans data algorithm = Inl e)"
proof (cases "validate_data data")
  case False
  then show ?thesis by (simp add: detect_events_body_def)
next
  case True
  show ?thesis
  proof (cases "ts_dates ts")
    case None
    with True ts show ?thesis by (simp add: detect_events_body_def)
  next
    case ds: (Some date_strings)
    show ?thesis
    proof (cases "ts_values ts")
      case None
      with True ts ds show ?thesis by (simp add: detect_events_body_def)
    next
      case vs: (Some vals)
      show ?thesis
      proof (cases "parse_dates date_strings")
        case (Inl e)
        with True ts ds vs show ?thesis by (simp add: detect_events_body_def)
      next
        case (Inr dates)
        with True ts ds vs flags few show ?thesis
          by (simp add: detect_events_body_def good_indices_length)
      qed
    qed
  qed
qed

text \<open>
  Claim C2. If fewer than three observations of the input series carry the quality flag
  \<open>good\<close>, \<open>detect_events\<close> returns the empty list, whatever the algorithm name
  (also an unknown one) and whatever the clustering does; the result is a list, no
  exception leaves the function.
\<close>

theorem detect_events_few_good:
  assumes "d_time_series data = Some ts"
    and "ts_quality_flags ts = Some flags"
    and "length (filter (\<lambda>f. f = ''good'') flags) < 3"
  shows "detect_events kmeans data algorithm = []"
  using detect_events_body_few_good [OF assms, of kmeans algorithm]
  by (auto simp: detect_events_def)

theorem detect_events_few_good_witness:
  "d_time_series cloudy_data = Some cloudy_series
   \<and> ts_quality_flags cloudy_series = Some [''good'', ''cloudy'', ''cloudy'', ''good'']
   \<and> length (filter (\<lambda>f. f = ''good'') [''good'', ''cloudy'', ''cloudy'', ''good'']) < 3
   \<and> detect_events kmeans0 cloudy_data ''seasonal_anomaly'' = []"
proof -
  have ts: "d_time_series cloudy_data = Some cloudy_series" by (simp add: cloudy_data_def)
  have fl: "ts_quality_flags cloudy_series = Some [''good'', ''cloudy'', ''cloudy'', ''good'']"
    by (simp add: cloudy_series_def)
  have few: "length (filter (\<lambda>f. f = ''good'') [''good'', ''cloudy'', ''cloudy'', ''good'']) < 3"
    by simp
  from detect_events_few_good [OF ts fl few] ts fl few show ?thesis by simp
qed

text \<open>
  Claim C10. If the input passes validation and has no \<open>quality_flags\<close> key,
  \<open>detect_events\<close> returns what it returns for the same input with every observation
  flagged \<open>good\<close>: the missing flags are defaulted, the input is not rejected.
\<close>

theorem detect_events_default_flags:
  assumes valid: "validate_data data"
    and ts: "d_time_series data = Some ts"
    and flags: "ts_quality_flags ts = None"
    and vs: "ts_values ts = Some vals"
  shows "detect_events kmeans data algorithm =
         detect_events kmeans
           (data\<lparr>d_time_series := Some (ts\<lparr>ts_quality_flags := Some (replicate (length vals) ''good'')\<rparr>)\<rparr>)
           algorithm"
proof -
  let ?data' = "data\<lparr>d_time_series := Some (ts\<lparr>ts_quality_flags := Some (replicate (length vals) ''good'')\<rparr>)\<rparr>"
  have e: "enrich_event ?data' = enrich_event data"
    by (rule ext) (simp add: enrich_event_def split: option.splits)
  have v: "validate_data ?data'"
    using valid ts by (simp add: validate_data_def split: option.splits)
  obtain ds where ds: "ts_dates ts = Some ds"
    using valid ts by (auto simp: validate_data_def split: option.splits)
  have "detect_events_body kmeans ?data' algorithm = detect_events_body kmeans data algorithm"
    using valid v ts flags vs ds by (simp add: detect_events_body_def e cong: if_cong)
  then show ?thesis by (simp add: detect_events_def)
qed

theorem detect_events_default_flags_witness:
  "validate_data unflagged_data
   \<and> d_time_series unflagged_data = Some unflagged_series
   \<and> ts_quality_flags unflagged_series = None
   \<and> ts_values unflagged_series = Some [Fin (- (2 / 5)), Fin (2 / 5), Fin 0, Fin (4 / 5)]
   \<and> detect_events kmeans0 unflagged_data ''threshold'' = [rise_event]"
proof -
  have va: "validate_data unflagged_data"
    by (simp add: validate_data_def unflagged_data_def unflagged_series_def rise_data_def rise_series_def)
  have ts: "d_time_series unflagged_data = Some unflagged_series" by (simp add: unflagged_data_def)
  have fl: "ts_quality_flags unflagged_series = None" by (simp add: unflagged_series_def)
  have vs: "ts_values unflagged_series = Some [Fin (- (2 / 5)), Fin (2 / 5), Fin 0, Fin (4 / 5)]"
    by (simp add: unflagged_series_def rise_series_def)
  have same: "unflagged_data\<lparr>d_time_series := Some (unflagged_series\<lparr>ts_quality_flags :=
      Some (replicate (length [Fin (- (2 / 5)), Fin (2 / 5), Fin 0, Fin (4 / 5)]) ''good'')\<rparr>)\<rparr> = rise_data"
    by (simp add: unflagged_data_def unflagged_series_def rise_data_def rise_series_def)
  from detect_events_default_flags [OF va ts fl vs, of kmeans0 "''threshold''"]
  have "detect_events kmeans0 unflagged_data ''threshold'' = detect_events kmeans0 rise_data ''threshold''"
    unfolding same .
  with va ts fl vs show ?thesis by (simp add: rise_detect)
qed

section \<open>Invariants of the events\<close>

lemma sorted_hd_nth_last:
  assumes "sorted (xs::nat list)" and "k < length xs"
  shows "hd xs \<le> xs ! k" and "xs ! k \<le> last xs"
proof -
  from assms(2) have ne: "xs \<noteq> []" by auto
  have "xs ! 0 \<le> xs ! k" using assms by (intro sorted_nth_mono) simp_all
  with ne show "hd xs \<le> xs ! k" by (simp add: hd_conv_nth)
  have "xs ! k \<le> xs ! (length xs - 1)" using assms by (intro sorted_nth_mono) simp_all
  with ne show "xs ! k \<le> last xs" by (simp add: last_conv_nth)
qed

lemma group_event_invariant:
  assumes dates: "sorted dates" and grp: "sorted grp"
    and ev: "group_event dates vals grp = Inr (Some ev)"
  shows "start_date ev \<le> peak_date ev \<and> peak_date ev \<le> end_date ev
       \<and> min_duration_days \<le> duration_days ev \<and> duration_days ev \<le> max_duration_days"
proof -
  from ev have len: "2 \<le> length grp" by (auto simp: group_event_def split: if_splits)
  from ev len obtain k where k: "np_argmax (map (\<lambda>i. vals ! i) grp) = Inr k"
    and rng: "\<not> (\<exists>i\<in>set grp. length dates \<le> i)"
    and dur: "min_duration_days \<le> dates ! last grp - dates ! hd grp"
             "dates ! last grp - dates ! hd grp \<le> max_duration_days"
    and fields: "start_date ev = dates ! hd grp" "end_date ev = dates ! last grp"
                "peak_date ev = dates ! (grp ! k)"
                "duration_days ev = dates ! last grp - dates ! hd grp"
    by (auto simp: group_event_def py_bind_Inr_iff Let_def split: if_splits)
  from np_argmax_bound [OF k] have kl: "k < length grp" by simp
  from len have ne: "grp \<noteq> []" by auto
  from rng ne kl have inr: "last grp < length dates" "grp ! k < length dates"
    by (auto simp: not_le)
  from sorted_hd_nth_last [OF grp kl] have o: "hd grp \<le> grp ! k" "grp ! k \<le> last grp" .
  have "dates ! hd grp \<le> dates ! (grp ! k)"
    using dates o(1) inr(2) by (rule sorted_nth_mono)
  moreover have "dates ! (grp ! k) \<le> dates ! last grp"
    using dates o(2) inr(1) by (rule sorted_nth_mono)
  ultimately show ?thesis using dur fields by simp
qed

lemma find_peak_range:
  "find_peak vals is (p, v) = (p', v') \<Longrightarrow> p' = p \<or> p' \<in> set is"
proof (induction "is" arbitrary: p v)
  case Nil
  then show ?case by simp
next
  case (Cons i rest)
  show ?case
  proof (cases "pf_gt (vals ! i) v")
    case True
    with Cons.prems have "find_peak vals rest (i, vals ! i) = (p', v')" by simp
    from Cons.IH [OF this] show ?thesis by auto
  next
    case False
    show ?thesis
    proof (cases "pf_lt (vals ! i) (pf_mul v (Fin (8 / 10)))")
      case True
      with False Cons.prems show ?thesis by simp
    next
      case nb: False
      with False Cons.prems have "find_peak vals rest (p, v) = (p', v')" by simp
      from Cons.IH [OF this] show ?thesis by auto
    qed
  qed
qed

lemma find_end_range: "find_end vals pv is e = e \<or> find_end vals pv is e \<in> set is"
proof (induction "is" arbitrary: e)
  case Nil
  then show ?case by simp
next
  case (Cons i rest)
  from Cons.IH [of i] show ?case by auto
qed

lemma track_invariant:
  assumes dates: "sorted dates"
    and ev: "track_flowering_event dates vals s = Inr (Some ev)"
  shows "start_date ev \<le> peak_date ev \<and> peak_date ev \<le> end_date ev
       \<and> min_duration_days \<le> duration_days ev \<and> duration_days ev \<le> max_duration_days"
proof -
  obtain p v where fp: "find_peak vals [s + 1 ..< min (length vals) (s + 10)] (s, vals ! s) = (p, v)"
    by (cases "find_peak vals [s + 1 ..< min (length vals) (s + 10)] (s, vals ! s)")
  define e where "e = find_end vals v [p + 1 ..< min (length vals) (p + 15)] p"
  from ev fp have rng: "e < length dates"
    and dur: "min_duration_days \<le> dates ! e - dates ! s" "dates ! e - dates ! s \<le> max_duration_days"
    and fields: "start_date ev = dates ! s" "end_date ev = dates ! e" "peak_date ev = dates ! p"
                "duration_days ev = dates ! e - dates ! s"
    by (auto simp: track_flowering_event_def py_bind_Inr_iff Let_def e_def not_le split: if_splits)
  from find_peak_range [OF fp] have sp: "s \<le> p" by auto
  from find_end_range [of vals v "[p + 1 ..< min (length vals) (p + 15)]" p]
  have pe: "p \<le> e" unfolding e_def by auto
  have "dates ! s \<le> dates ! p"
    using dates sp by (rule sorted_nth_mono) (use pe rng in simp)
  moreover have "dates ! p \<le> dates ! e"
    using dates pe rng by (rule sorted_nth_mono)
  ultimately show ?thesis using dur fields by simp
qed

lemma event_origin_invariant:
  assumes "sorted dates" and "event_origin dates vals ev"
  shows "start_date ev \<le> peak_date ev \<and> peak_date ev \<le> end_date ev
       \<and> min_duration_days \<le> duration_days ev \<and> duration_days ev \<le> max_duration_days"
  using assms group_event_invariant track_invariant by blast

lemma clean_dates_sorted:
  assumes "sorted_wrt (<) (dates::int list)" and "sorted_wrt (<) gi" and "\<forall>i\<in>set gi. i < length dates"
  shows "sorted (map (\<lambda>i. dates ! i) gi)"
proof -
  have "sorted_wrt (\<lambda>i j. dates ! i \<le> dates ! j) gi"
  proof (rule sorted_wrt_mono_rel [OF _ assms(2)])
    fix i j assume "i \<in> set gi" "j \<in> set gi" "i < j"
    with assms(1,3) have "dates ! i < dates ! j" by (simp add: sorted_wrt_nth_less)
    then show "dates ! i \<le> dates ! j" by simp
  qed
  then show ?thesis by (simp add: sorted_wrt_map)
qed

text \<open>
  Claim C1. When the dates of the input series are strictly increasing, every event that
  \<open>detect_events\<close> returns, under every algorithm name and every clustering, has
  \<open>start_date \<le> peak_date \<le> end_date\<close> and a duration between \<open>min_duration_days\<close>
  (5) and \<open>max_duration_days\<close> (45).
\<close>

theorem event_invariants:
  assumes ts: "d_time_series data = Some ts"
    and ds: "ts_dates ts = Some date_strings"
    and pd: "parse_dates date_strings = Inr dates"
    and inc: "sorted_wrt (<) dates"
    and e: "e \<in> set (detect_events kmeans data algorithm)"
  shows "start_date e \<le> peak_date e \<and> peak_date e \<le> end_date e
       \<and> min_duration_days \<le> duration_days e \<and> duration_days e \<le> max_duration_days"
proof -
  from detect_events_origin [OF e] obtain ts' ds' dates' gi cvals ev where
    same: "d_time_series data = Some ts'" "ts_dates ts' = Some ds'" "parse_dates ds' = Inr dates'"
    and gi': "sorted_wrt (<) gi" "\<forall>i\<in>set gi. i < length dates'"
    and en: "enrich_event data ev = Inr e"
    and orig': "event_origin (map (\<lambda>i. dates' ! i) gi) cvals ev"
    by blast
  from same ts ds pd have eq: "dates' = dates" by simp
  from gi' eq have gi: "sorted_wrt (<) gi" "\<forall>i\<in>set gi. i < length dates" by simp_all
  from orig' eq have orig: "event_origin (map (\<lambda>i. dates ! i) gi) cvals ev" by simp
  from clean_dates_sorted [OF inc gi] have "sorted (map (\<lambda>i. dates ! i) gi)" .
  from event_origin_invariant [OF this orig] enrich_event_fields [OF en] show ?thesis by simp
qed

theorem event_invariants_witness:
  "d_time_series rise_data = Some rise_series
   \<and> ts_dates rise_series = Some [''2024-03-01'', ''2024-03-11'', ''2024-03-21'', ''2024-03-31'']
   \<and> parse_dates [''2024-03-01'', ''2024-03-11'', ''2024-03-21'', ''2024-03-31'']
        = Inr [738946, 738956, 738966, 738976]
   \<and> sorted_wrt (<) [738946, 738956, 738966, 738976 :: int]
   \<and> rise_event \<in> set (detect_events kmeans0 rise_data ''threshold'')
   \<and> start_date rise_event \<le> peak_date rise_event \<and> peak_date rise_event \<le> end_date rise_event
   \<and> min_duration_days \<le> duration_days rise_event
   \<and> duration_days rise_event \<le> max_duration_days"
proof -
  have ts: "d_time_series rise_data = Some rise_series" by (simp add: rise_data_def)
  have ds: "ts_dates rise_series = Some [''2024-03-01'', ''2024-03-11'', ''2024-03-21'', ''2024-03-31'']"
    by (simp add: rise_series_def)
  have inc: "sorted_wrt (<) [738946, 738956, 738966, 738976 :: int]" by simp
  have mem: "rise_event \<in> set (detect_events kmeans0 rise_data ''threshold'')"
    by (simp add: rise_detect)
  from event_invariants [OF ts ds rise_dates inc mem] ts ds rise_dates inc mem
  show ?thesis by simp
qed

text \<open>
  Claim C3. The confidence of every event that \<open>detect_events\<close> returns is a finite
  number between 0 and 1, for every input series: the divisions by a zero standard
  deviation or a zero mean give an infinity or NaN, which the final
  \<open>max(0.0, min(1.0, confidence))\<close> turns into 0 or 1.
\<close>

theorem confidence_in_unit_interval:
  assumes "e \<in> set (detect_events kmeans data algorithm)"
  shows "\<exists>r. confidence e = Fin r \<and> 0 \<le> r \<and> r \<le> 1"
proof -
  from detect_events_origin [OF assms] obtain dates cvals ev where
    en: "enrich_event data ev = Inr e" and orig: "event_origin dates cvals ev"
    by blast
  from orig group_event_confidence track_confidence
  obtain idx where "calculate_confidence idx cvals = Inr (confidence ev)" by blast
  from calculate_confidence_range [OF this] enrich_event_fields(5) [OF en] show ?thesis by simp
qed

theorem confidence_in_unit_interval_witness:
  "rise_event \<in> set (detect_events kmeans0 rise_data ''threshold'')
   \<and> (\<exists>r. confidence rise_event = Fin r \<and> 0 \<le> r \<and> r \<le> 1)"
proof -
  have mem: "rise_event \<in> set (detect_events kmeans0 rise_data ''threshold'')"
    by (simp add: rise_detect)
  from confidence_in_unit_interval [OF mem] mem show ?thesis by simp
qed

section \<open>Constant series\<close>




section \<open>The forecaster\<close>

text \<open>
  Claim C7. The probability is 0 when the predicted value is at most 1.15 times the
  typical value and \<open>min(1, (predicted - typical) / typical)\<close> otherwise; but it does
  not always lie between 0 and 1. For the series observed at -0.2 on 2023-01-02 and at
  -0.3 on 2024-01-01, and a draw 0.8 standard deviations above the mean, the prediction
  for 2024-01-02 is -0.196 against a typical value of -0.2, and its probability is -0.02.
\<close>

theorem flowering_probability_negative:
  "predict_flowering normal_above water_data 1
     = [\<lparr>p_date = 738887, predicted_ndvi = Fin (- (49 / 250)), p_confidence = Fin (7 / 10),
         flowering_probability = Fin (- (1 / 50))\<rparr>]"
  by (simp add: predict_flowering_def predict_flowering_body_def water_data_def water_series_def
      water_dates max_date_def date_add_def max_ordinal_def predict_one_def water_std
      normal_above_def tm_yday_def water_pattern_2 calculate_flowering_probability_def
      pf_gt_def pf_sub_def py_min_def
      del: parse_dates.simps)

text \<open>
  Claim C8, as stated, fails: \<open>datetime\<close> ends at 9999-12-31, the addition of a
  \<open>timedelta\<close> beyond it raises OverflowError, and the handler returns the empty list.
  The series whose only observation is dated 9999-12-31 gives no prediction for
  \<open>days_ahead = 1\<close>.
\<close>

theorem predict_flowering_overflow:
  "predict_flowering normal_above last_day_data 1 = []"
  by (simp add: predict_flowering_def predict_flowering_body_def last_day_data_def
      last_day_series_def last_day_dates max_date_def date_add_def max_ordinal_def
      del: parse_dates.simps)

text \<open>
  Claim C8, amended. For a series with a \<open>values\<close> key whose dates parse and are not
  empty, and for every \<open>days_ahead\<close> such that the last (maximum) date plus
  \<open>days_ahead\<close> days is not after 9999-12-31, \<open>predict_flowering\<close> returns exactly
  \<open>days_ahead\<close> predictions, and their dates are the consecutive days that follow the
  last date, in order; this holds for every random generator.
\<close>

theorem predict_flowering_dates:
  assumes ts: "d_time_series data = Some ts"
    and ds: "ts_dates ts = Some date_strings"
    and vs: "ts_values ts = Some vals"
    and pd: "parse_dates date_strings = Inr dates"
    and ne: "dates \<noteq> []"
    and range: "Max (set dates) + days_ahead \<le> max_ordinal"
  shows "length (predict_flowering normal data days_ahead) = nat days_ahead
       \<and> map p_date (predict_flowering normal data days_ahead)
           = map (\<lambda>k. Max (set dates) + k) [1..days_ahead]"
proof -
  let ?last = "Max (set dates)"
  have "?last \<in> set dates" using ne by (intro Max_in) simp_all
  from parse_dates_positive [OF pd this] have pos: "1 \<le> ?last" .
  have add: "date_add ?last k = Inr (?last + k)" if "k \<in> set [1..days_ahead]" for k
    using that pos range by (simp add: date_add_def)
  have fut: "py_mapM (date_add ?last) [1..days_ahead]
               = Inr (map (\<lambda>k. ?last + k) [1..days_ahead])"
    by (rule py_mapM_all) (rule add)
  let ?fd = "map (\<lambda>k. ?last + k) [1..days_ahead]"
  have body: "predict_flowering normal data days_ahead
      = map (predict_one normal (extract_seasonal_pattern dates vals) vals) (zip [0..<length ?fd] ?fd)"
    using ts ds vs pd max_date_Max [OF ne] fut
    by (simp add: predict_flowering_def predict_flowering_body_def Let_def)
  have dates_eq: "map p_date (predict_flowering normal data days_ahead) = ?fd"
    unfolding body by (rule map_p_date_predict) simp
  from arg_cong [OF this, of length] have "length (predict_flowering normal data days_ahead) = nat days_ahead"
    by simp
  with dates_eq show ?thesis by simp
qed

theorem predict_flowering_dates_witness:
  "d_time_series rise_data = Some rise_series
   \<and> ts_dates rise_series = Some [''2024-03-01'', ''2024-03-11'', ''2024-03-21'', ''2024-03-31'']
   \<and> ts_values rise_series = Some [Fin (- (2 / 5)), Fin (2 / 5), Fin 0, Fin (4 / 5)]
   \<and> parse_dates [''2024-03-01'', ''2024-03-11'', ''2024-03-21'', ''2024-03-31'']
        = Inr [738946, 738956, 738966, 738976]
   \<and> Max (set [738946, 738956, 738966, 738976 :: int]) + 3 \<le> max_ordinal
   \<and> length (predict_flowering normal_above rise_data 3) = 3
   \<and> map p_date (predict_flowering normal_above rise_data 3) = [738977, 738978, 738979]"
proof -
  have ts: "d_time_series rise_data = Some rise_series" by (simp add: rise_data_def)
  have ds: "ts_dates rise_series = Some [''2024-03-01'', ''2024-03-11'', ''2024-03-21'', ''2024-03-31'']"
    by (simp add: rise_series_def)
  have vs: "ts_values rise_series = Some [Fin (- (2 / 5)), Fin (2 / 5), Fin 0, Fin (4 / 5)]"
    by (simp add: rise_series_def)
  have ne: "[738946, 738956, 738966, 738976 :: int] \<noteq> []" by simp
  have range: "Max (set [738946, 738956, 738966, 738976 :: int]) + 3 \<le> max_ordinal"
    by (simp add: max_ordinal_def)
  have days: "[1..3::int] = [1, 2, 3]" by (simp add: upto.simps)
  from predict_flowering_dates [OF ts ds vs rise_dates ne range, of normal_above]
    ts ds vs rise_dates range
  show ?thesis by (simp add: days)
qed

section \<open>Cleaning a series flagged as good\<close>




section \<open>The caller's series\<close>

text \<open>
  Claim C9 fails on the code: \<open>raw_data.copy()\<close> copies the top-level dictionary only,
  and the cloud mask assigns to the keys of the nested \<open>time_series\<close> dictionary, which is
  the caller's. After \<open>process_time_series\<close> on \<open>masked_series\<close>, whose second
  observation is flagged \<open>cloudy\<close>, the caller's object holds the interpolated value 0.3
  in place of 0.9 and the flag \<open>interpolated\<close> in place of \<open>cloudy\<close>.
\<close>

theorem clean_changes_callers_series:
  "ts_values (store_of masked_series 0) = Some [Fin (1 / 5), Fin (9 / 10), Fin (2 / 5)]
   \<and> ts_quality_flags (store_of masked_series 0) = Some [''good'', ''cloudy'', ''good'']
   \<and> ts_values (snd (process_time_series None held_at_0 (store_of masked_series)) 0)
       = Some [Fin (1 / 5), Fin (3 / 10), Fin (2 / 5)]
   \<and> ts_quality_flags (snd (process_time_series None held_at_0 (store_of masked_series)) 0)
       = Some [''good'', ''interpolated'', ''good'']"
proof -
  from masked_cloud_mask obtain h1 where
    cm: "apply_cloud_mask held_at_0 (store_of masked_series) = (Inr held_at_0, h1)"
    and vs: "ts_values (h1 0) = Some [Fin (1 / 5), Fin (3 / 10), Fin (2 / 5)]"
    and fl: "ts_quality_flags (h1 0) = Some [''good'', ''interpolated'', ''good'']"
    by blast
  have a: "r_time_series held_at_0 = Some 0" by (simp add: held_at_0_def)
  have none: "True \<notin> set [False, False, False]" by simp
  have ro: "remove_outliers held_at_0 h1 = (Inr held_at_0, h1)"
    by (rule remove_outliers_none [of held_at_0 0 h1 _ "[False, False, False]", OF a vs masked_mask none])
  have before: "ts_values (store_of masked_series 0) = Some [Fin (1 / 5), Fin (9 / 10), Fin (2 / 5)]
   \<and> ts_quality_flags (store_of masked_series 0) = Some [''good'', ''cloudy'', ''good'']"
    by (simp add: store_of_def masked_series_def empty_series_def)
  from pipeline_tail_frame [OF cm ro] vs fl before show ?thesis by simp
qed

section \<open>Exceptions\<close>

text \<open>
  Claim C6 fails on the code. \<open>detect_events\<close>, \<open>predict_flowering\<close> and
  \<open>process_time_series\<close> run their body inside \<open>try\<close> and return an empty or default
  result when it raises, but \<open>calculate_phenology_metrics\<close> has no \<open>try\<close> block, and
  guards only against a missing \<open>time_series\<close>: it raises the ValueError of
  \<open>np.argmax\<close> on a series with no observation, the ValueError of \<open>strptime\<close> on a
  series whose dates are written with slashes, and KeyError on a \<open>time_series\<close> with no
  \<open>dates\<close> key.
\<close>

theorem phenology_metrics_raise:
  "calculate_phenology_metrics held_at_0 (store_of no_observations) = Inl ValueError
   \<and> calculate_phenology_metrics held_at_0 (store_of slashed_series) = Inl ValueError
   \<and> calculate_phenology_metrics held_at_0 (store_of empty_series) = Inl KeyError"
  by (simp add: calculate_phenology_metrics_def held_at_0_def store_of_def no_observations_def
      slashed_series_def empty_series_def py_bind_def find_season_start_def np_argmax_def
      slashed_date)

end
